theory Spec2Isabelle
  imports Complex_Main "HOL-Library.AList"
begin

section \<open>JavaScript values as the code sees them\<close>

text \<open>
  The orchestrator handles values of type \<^verbatim>\<open>any\<close>: the decision object parsed from the
  model's reply, job parameters, job results. They are modelled as JSON values. A property
  that is absent reads as \<^verbatim>\<open>undefined\<close>, modelled as \<open>None\<close>. An object keeps its
  keys in insertion order, as an association list. Numbers are rationals: the claims only
  exercise values on which double arithmetic is exact.
\<close>

datatype jsvalue =
    JNull
  | JBool bool
  | JNum rat
  | JStr string
  | JArr "jsvalue list"
  | JObj "(string \<times> jsvalue) list"

text \<open>Truthiness, as \<^verbatim>\<open>!x\<close>, \<^verbatim>\<open>x || y\<close> and \<^verbatim>\<open>if (x)\<close> use it.\<close>

fun truthy :: "jsvalue \<Rightarrow> bool" where
  "truthy JNull = False"
| "truthy (JBool b) = b"
| "truthy (JNum r) = (r \<noteq> 0)"
| "truthy (JStr s) = (s \<noteq> [])"
| "truthy (JArr xs) = True"
| "truthy (JObj kvs) = True"

fun truthy_opt :: "jsvalue option \<Rightarrow> bool" where
  "truthy_opt None = False"
| "truthy_opt (Some v) = truthy v"

text \<open>Property access \<^verbatim>\<open>v.k\<close> on a parsed value (\<open>None\<close> is \<^verbatim>\<open>undefined\<close>).\<close>

fun get_field :: "jsvalue \<Rightarrow> string \<Rightarrow> jsvalue option" where
  "get_field (JObj kvs) k = map_of kvs k"
| "get_field v k = None"

text \<open>
  A \<^verbatim>\<open>Date\<close>: a time value in milliseconds, or the invalid date, whose
  \<^verbatim>\<open>getTime()\<close> is NaN (\<open>None\<close>). Every comparison with NaN is false.
\<close>

datatype Date = Date int | InvalidDate

fun getTime :: "Date \<Rightarrow> int option" where
  "getTime (Date t) = Some t"
| "getTime InvalidDate = None"

section \<open>Types of the repository (types/index.ts)\<close>

datatype FunctionType = HELPER | RUNNER | WORKER

datatype JobExecutionType = INSTANT | SCHEDULE | REPEAT | OtherExecutionType jsvalue

datatype JobStatus = PENDING | RUNNING | COMPLETED | FAILED | CANCELLED

record IFunctionParameter =
  param_name :: string
  param_type :: string
  required :: bool

record IFunctionDefinition =
  name :: string
  description :: string
  ftype :: FunctionType
  parameters :: "IFunctionParameter list"
  timeout :: "int option"
  retries :: "int option"

text \<open>
  Every error the modelled code throws or passes on, with the message text of the source.
  For an error that a library raises (the queue, the broker connection,
  \<^verbatim>\<open>JSON.parse\<close>) the text stands for whatever text the library gives.
\<close>

datatype error =
    FunctionNotFound string
  | ScheduleTimeRequired
  | ScheduleTimeNotFuture
  | RepeatIntervalRequired
  | NotRepeatable
  | UnsupportedExecutionType
  | QueueUnavailable
  | FunctionTimeout
  | HandlerError string
  | LLMInstanceNotFound string
  | ProviderError string
  | InvalidLLMResponse
  | FunctionNameRequired
  | JobNotFound
  | JobFailed string
  | JobExecutionTimeout
  | JobIdRequired
  | ChannelNotAvailable
  | InvalidMessageFormat
  | PublishFailed
  | InvalidOrchestrationResponse
  | UnsupportedLLMProvider string
  | UnsupportedProvider string
  | NoJSONFound
  | ConnectionFailed
  | JSONSyntaxError
  | MissingAction

fun error_message :: "error \<Rightarrow> string" where
  "error_message (FunctionNotFound n) = ''Function '' @ n @ '' not found''"
| "error_message ScheduleTimeRequired = ''Schedule time is required for scheduled jobs''"
| "error_message ScheduleTimeNotFuture = ''Schedule time must be in the future''"
| "error_message RepeatIntervalRequired = ''Repeat interval is required for repeat jobs''"
| "error_message NotRepeatable = ''Only runner functions can be repeated''"
| "error_message UnsupportedExecutionType = ''Unsupported execution type''"
| "error_message QueueUnavailable = ''Connection is closed.''"
| "error_message FunctionTimeout = ''Function execution timeout''"
| "error_message (HandlerError m) = m"
| "error_message (LLMInstanceNotFound i) = ''LLM instance not found: '' @ i"
| "error_message (ProviderError m) = m"
| "error_message InvalidLLMResponse = ''Invalid response from LLM''"
| "error_message FunctionNameRequired = ''Function name is required for execute_function action''"
| "error_message JobNotFound = ''Job not found''"
| "error_message (JobFailed m) = m"
| "error_message JobExecutionTimeout = ''Job execution timeout''"
| "error_message JobIdRequired = ''Job ID is required for cancel_job action''"
| "error_message ChannelNotAvailable = ''Channel not available''"
| "error_message InvalidMessageFormat = ''Invalid message format''"
| "error_message PublishFailed = ''Message send timeout''"
| "error_message InvalidOrchestrationResponse = ''Invalid response from orchestration''"
| "error_message (UnsupportedLLMProvider p) = ''Unsupported LLM provider: '' @ p"
| "error_message (UnsupportedProvider p) = ''Unsupported provider: '' @ p"
| "error_message NoJSONFound = ''No JSON found in LLM response''"
| "error_message ConnectionFailed = ''connect ECONNREFUSED''"
| "error_message JSONSyntaxError = ''Unexpected token in JSON''"
| "error_message MissingAction = ''Missing action in LLM decision''"

text \<open>
  A handler is an asynchronous function. What its caller can observe of one call is when
  the returned promise settles (milliseconds after the call) and with what, or that it
  never settles.
\<close>

datatype handler_run = Settles nat "error + jsvalue" | NeverSettles

record ICustomFunction =
  func_definition :: IFunctionDefinition
  handler :: "jsvalue \<Rightarrow> handler_run"

record IJobData =
  functionName :: string
  job_parameters :: jsvalue
  executionType :: JobExecutionType
  scheduleTime :: "Date option"
  repeatInterval :: "jsvalue option"
  repeatDeadline :: "Date option"
  priority :: "int option"
  job_retries :: "int option"

record IJob =
  job_id :: string
  data :: IJobData
  status :: JobStatus
  createdAt :: int
  startedAt :: "int option"
  completedAt :: "int option"
  result :: "jsvalue option"
  job_error :: "string option"

section \<open>FunctionsManager\<close>

text \<open>The registry: a map from function names to callable functions.\<close>

record FunctionsManager =
  functions_map :: "(string \<times> ICustomFunction) list"

definition getFunction :: "FunctionsManager \<Rightarrow> string \<Rightarrow> ICustomFunction option" where
  "getFunction fm n = map_of (functions_map fm) n"

text \<open>\<^verbatim>\<open>x || d\<close> on an optional number: the default replaces undefined and 0.\<close>

definition or_default :: "int option \<Rightarrow> int \<Rightarrow> int" where
  "or_default x d = (case x of None \<Rightarrow> d | Some v \<Rightarrow> if v = 0 then d else v)"

text \<open>
  \<^verbatim>\<open>setTimeout(f, d)\<close> on Node.js fires after \<open>d\<close> milliseconds when
  \<open>1 \<le> d \<le> 2147483647\<close>, and after 1 millisecond otherwise.
\<close>

definition timer_fires_at :: "int \<Rightarrow> nat" where
  "timer_fires_at d = (if d < 1 \<or> 2147483647 < d then 1 else nat d)"

text \<open>
  What the caller of \<^verbatim>\<open>executeFunction\<close> observes: the outcome it resumes with, when,
  and the handler run that is still going on at that moment, if any. Nothing cancels a
  handler: when the timer wins the race the run goes on and its outcome has no reader.
\<close>

record execution =
  outcome :: "error + jsvalue"
  resumed_at :: nat
  still_running :: "handler_run option"

text \<open>
  \<^verbatim>\<open>Promise.race([handler(...), timer])\<close>: the first promise to settle decides. A
  handler that settles in the very millisecond the timer fires is taken as first (its
  promise was created first).
\<close>

definition promise_race :: "handler_run \<Rightarrow> int \<Rightarrow> execution" where
  "promise_race run d =
     (case run of
        Settles t r \<Rightarrow>
          if t \<le> timer_fires_at d
          then \<lparr>outcome = r, resumed_at = t, still_running = None\<rparr>
          else \<lparr>outcome = Inl FunctionTimeout, resumed_at = timer_fires_at d,
                still_running = Some run\<rparr>
      | NeverSettles \<Rightarrow>
          \<lparr>outcome = Inl FunctionTimeout, resumed_at = timer_fires_at d,
           still_running = Some run\<rparr>)"

definition executeFunction :: "FunctionsManager \<Rightarrow> string \<Rightarrow> jsvalue \<Rightarrow> execution" where
  "executeFunction fm n params =
     (case map_of (functions_map fm) n of
        None \<Rightarrow> \<lparr>outcome = Inl (FunctionNotFound n), resumed_at = 0, still_running = None\<rparr>
      | Some func \<Rightarrow>
          let timeout = or_default (timeout (func_definition func)) 30000
          in promise_race (handler func params) timeout)"

section \<open>The durable queue (BullMQ), at its interface\<close>

text \<open>
  The queue library is an external collaborator. Its model keeps what the job engine
  passes to it: the entries by job id, each with its data and options. Every operation
  rejects while the connection to the broker is down (\<open>q_up\<close> false).
\<close>

record RepeatOptions =
  every :: "jsvalue option"
  endDate :: Date

record JobsOptions =
  opt_jobId :: string
  opt_priority :: int
  opt_attempts :: int
  opt_delay :: "int option option"
  opt_repeat :: "RepeatOptions option"

record bull_queue =
  q_entries :: "(string \<times> IJobData \<times> JobsOptions) list"
  q_up :: bool

definition queue_add :: "IJobData \<Rightarrow> JobsOptions \<Rightarrow> bull_queue \<Rightarrow> error + bull_queue" where
  "queue_add jd opts q =
     (if q_up q
      then Inr (q\<lparr>q_entries := AList.update (opt_jobId opts) (jd, opts) (q_entries q)\<rparr>)
      else Inl QueueUnavailable)"

definition queue_getJob :: "string \<Rightarrow> bull_queue \<Rightarrow> error + (IJobData \<times> JobsOptions) option" where
  "queue_getJob jobId q =
     (if q_up q then Inr (map_of (q_entries q) jobId) else Inl QueueUnavailable)"

definition queue_remove :: "string \<Rightarrow> bull_queue \<Rightarrow> error + bull_queue" where
  "queue_remove jobId q =
     (if q_up q then Inr (q\<lparr>q_entries := AList.delete jobId (q_entries q)\<rparr>)
      else Inl QueueUnavailable)"

section \<open>JobsQueueManager\<close>

text \<open>
  The state of the job engine: the function registry it was constructed with, the
  in-memory job-status map, the two timer maps (by key) and the queue. \<^verbatim>\<open>uuidv4()\<close> and \<^verbatim>\<open>Date.now()\<close> are arguments of the
  operations that call them.
\<close>

record JobsQueueManager =
  functionsManager :: FunctionsManager
  jobs :: "(string \<times> IJob) list"
  scheduledJobs :: "string list"
  repeatJobs :: "string list"
  queue :: bull_queue

definition getJob :: "JobsQueueManager \<Rightarrow> string \<Rightarrow> IJob option" where
  "getJob st jobId = map_of (jobs st) jobId"

text \<open>
  \<^verbatim>\<open>updateJobStatus(jobId, status, result?, error?)\<close>: \<open>res = None\<close> is an
  \<^verbatim>\<open>undefined\<close> result (\<^verbatim>\<open>null\<close> is \<open>Some JNull\<close> and is stored); the error is
  stored when it is a non-empty string.
\<close>

definition updateJobStatus ::
  "string \<Rightarrow> JobStatus \<Rightarrow> jsvalue option \<Rightarrow> string option \<Rightarrow> int \<Rightarrow> JobsQueueManager \<Rightarrow> JobsQueueManager" where
  "updateJobStatus jobId st res err now m =
     (case map_of (jobs m) jobId of
        None \<Rightarrow> m
      | Some job \<Rightarrow>
          let job1 = job\<lparr>status := st\<rparr>;
              job2 = (case res of None \<Rightarrow> job1 | Some r \<Rightarrow> job1\<lparr>result := Some r\<rparr>);
              job3 = (case err of
                        None \<Rightarrow> job2
                      | Some e \<Rightarrow> if e \<noteq> [] then job2\<lparr>job_error := Some e\<rparr> else job2);
              job4 = (if st = RUNNING then job3\<lparr>startedAt := Some now\<rparr>
                      else if st = COMPLETED \<or> st = FAILED then job3\<lparr>completedAt := Some now\<rparr>
                      else job3)
          in m\<lparr>jobs := AList.update jobId job4 (jobs m)\<rparr>)"

text \<open>The events the worker and the queue's event stream deliver, and their handlers.\<close>

datatype queue_event =
    WorkerCompleted string jsvalue
  | WorkerFailed "string option" string
  | WorkerActive string
  | WorkerStalled string
  | WorkerError string
  | QueueWaiting string
  | QueueActive string
  | QueueCompleted string jsvalue
  | QueueFailed string string

fun handleEvent :: "queue_event \<Rightarrow> int \<Rightarrow> JobsQueueManager \<Rightarrow> JobsQueueManager" where
  "handleEvent (WorkerCompleted jobId r) now m = updateJobStatus jobId COMPLETED (Some r) None now m"
| "handleEvent (WorkerFailed None msg) now m = m"
| "handleEvent (WorkerFailed (Some jobId) msg) now m =
     updateJobStatus jobId FAILED (Some JNull) (Some msg) now m"
| "handleEvent (WorkerActive jobId) now m = updateJobStatus jobId RUNNING None None now m"
| "handleEvent (WorkerStalled jobId) now m = m"
| "handleEvent (WorkerError msg) now m = m"
| "handleEvent (QueueWaiting jobId) now m = updateJobStatus jobId PENDING None None now m"
| "handleEvent (QueueActive jobId) now m = updateJobStatus jobId RUNNING None None now m"
| "handleEvent (QueueCompleted jobId r) now m = updateJobStatus jobId COMPLETED (Some r) None now m"
| "handleEvent (QueueFailed jobId reason) now m =
     updateJobStatus jobId FAILED (Some JNull) (Some reason) now m"

text \<open>The job id an event refers to, if any.\<close>

fun event_job :: "queue_event \<Rightarrow> string option" where
  "event_job (WorkerCompleted jobId r) = Some jobId"
| "event_job (WorkerFailed j msg) = j"
| "event_job (WorkerActive jobId) = Some jobId"
| "event_job (WorkerStalled jobId) = Some jobId"
| "event_job (WorkerError msg) = None"
| "event_job (QueueWaiting jobId) = Some jobId"
| "event_job (QueueActive jobId) = Some jobId"
| "event_job (QueueCompleted jobId r) = Some jobId"
| "event_job (QueueFailed jobId reason) = Some jobId"

definition addInstantJob :: "string \<Rightarrow> IJobData \<Rightarrow> JobsQueueManager \<Rightarrow> error + JobsQueueManager" where
  "addInstantJob jobId jd m =
     (let opts = \<lparr>opt_jobId = jobId, opt_priority = or_default (priority jd) 0,
                  opt_attempts = or_default (job_retries jd) 3, opt_delay = Some (Some 0),
                  opt_repeat = None\<rparr>
      in case queue_add jd opts (queue m) of
           Inl e \<Rightarrow> Inl e
         | Inr q \<Rightarrow> Inr (m\<lparr>queue := q\<rparr>))"

text \<open>
  \<^verbatim>\<open>delay = scheduleTime.getTime() - Date.now()\<close>; with an invalid date the delay is NaN
  (\<open>None\<close>), \<^verbatim>\<open>delay <= 0\<close> is false and the job is enqueued with that delay.
\<close>

definition schedule_delay :: "Date \<Rightarrow> int \<Rightarrow> int option" where
  "schedule_delay d now = (case getTime d of None \<Rightarrow> None | Some t \<Rightarrow> Some (t - now))"

definition addScheduledJob :: "string \<Rightarrow> IJobData \<Rightarrow> int \<Rightarrow> JobsQueueManager \<Rightarrow> error + JobsQueueManager" where
  "addScheduledJob jobId jd now m =
     (case scheduleTime jd of
        None \<Rightarrow> Inl ScheduleTimeRequired
      | Some d \<Rightarrow>
          let delay = schedule_delay d now in
          if (case delay of None \<Rightarrow> False | Some x \<Rightarrow> x \<le> 0) then Inl ScheduleTimeNotFuture
          else
            let opts = \<lparr>opt_jobId = jobId, opt_priority = or_default (priority jd) 0,
                        opt_attempts = or_default (job_retries jd) 3, opt_delay = Some delay,
                        opt_repeat = None\<rparr>
            in case queue_add jd opts (queue m) of
                 Inl e \<Rightarrow> Inl e
               | Inr q \<Rightarrow> Inr (m\<lparr>queue := q\<rparr>))"

definition addRepeatJob :: "string \<Rightarrow> IJobData \<Rightarrow> int \<Rightarrow> JobsQueueManager \<Rightarrow> error + JobsQueueManager" where
  "addRepeatJob jobId jd now m =
     (if \<not> truthy_opt (repeatInterval jd) then Inl RepeatIntervalRequired
      else if (case getFunction (functionsManager m) (functionName jd) of
                 None \<Rightarrow> True
               | Some f \<Rightarrow> ftype (func_definition f) \<noteq> RUNNER) then Inl NotRepeatable
      else
        let deadline = (case repeatDeadline jd of
                          None \<Rightarrow> Date (now + 24 * 60 * 60 * 1000)
                        | Some d \<Rightarrow> d);
            opts = \<lparr>opt_jobId = jobId, opt_priority = or_default (priority jd) 0,
                    opt_attempts = or_default (job_retries jd) 3, opt_delay = None,
                    opt_repeat = Some \<lparr>every = repeatInterval jd, endDate = deadline\<rparr>\<rparr>
        in case queue_add jd opts (queue m) of
             Inl e \<Rightarrow> Inl e
           | Inr q \<Rightarrow> Inr (m\<lparr>queue := q\<rparr>))"

text \<open>
  \<^verbatim>\<open>addJob\<close>: the function check comes first and leaves the state alone; the job
  record is stored before the dispatch on the execution type, and an error thrown by the
  dispatch leaves it there. The result pairs the outcome with the state after the call.
\<close>

definition addJob ::
  "string \<Rightarrow> int \<Rightarrow> IJobData \<Rightarrow> JobsQueueManager \<Rightarrow> (error + string) \<times> JobsQueueManager" where
  "addJob jobId now jd m =
     (if getFunction (functionsManager m) (functionName jd) = None
      then (Inl (FunctionNotFound (functionName jd)), m)
      else
        let job = \<lparr>job_id = jobId, data = jd, status = PENDING, createdAt = now,
                   startedAt = None, completedAt = None, result = None, job_error = None\<rparr>;
            m1 = m\<lparr>jobs := AList.update jobId job (jobs m)\<rparr>;
            r = (case executionType jd of
                   INSTANT \<Rightarrow> addInstantJob jobId jd m1
                 | SCHEDULE \<Rightarrow> addScheduledJob jobId jd now m1
                 | REPEAT \<Rightarrow> addRepeatJob jobId jd now m1
                 | OtherExecutionType v \<Rightarrow> Inl UnsupportedExecutionType)
        in case r of
             Inl e \<Rightarrow> (Inl e, m1)
           | Inr m2 \<Rightarrow> (Inr jobId, m2))"

text \<open>
  \<^verbatim>\<open>cancelJob\<close>: false for an unknown id and when a queue operation throws (the catch);
  otherwise the job leaves the queue and both timer maps, is marked cancelled, and the
  answer is true. The job's current status is not consulted.
\<close>

definition cancelJob :: "string \<Rightarrow> int \<Rightarrow> JobsQueueManager \<Rightarrow> bool \<times> JobsQueueManager" where
  "cancelJob jobId now m =
     (case map_of (jobs m) jobId of
        None \<Rightarrow> (False, m)
      | Some job \<Rightarrow>
          (case queue_getJob jobId (queue m) of
             Inl e \<Rightarrow> (False, m)
           | Inr bullJob \<Rightarrow>
               (case (case bullJob of
                        None \<Rightarrow> Inr (queue m)
                      | Some b \<Rightarrow> queue_remove jobId (queue m)) of
                  Inl e \<Rightarrow> (False, m)
                | Inr q \<Rightarrow>
                    let m1 = m\<lparr>queue := q\<rparr>;
                        m2 = m1\<lparr>scheduledJobs := removeAll jobId (scheduledJobs m1)\<rparr>;
                        m3 = m2\<lparr>repeatJobs := removeAll jobId (repeatJobs m2)\<rparr>
                    in (True, updateJobStatus jobId CANCELLED None None now m3))))"

section \<open>LLMManager\<close>

datatype LLMProvider = OPENAI | ANTHROPIC | GOOGLE | OtherProvider string

record ILLMConfig =
  provider :: LLMProvider
  apiKey :: string
  model :: string
  systemPrompt :: "string option"

record ILLMInstance =
  instance_id :: string
  config :: ILLMConfig
  instance_createdAt :: int
  lastUsed :: "int option"

record LLMManager =
  instances :: "(string \<times> ILLMInstance) list"

definition createInstance :: "string \<Rightarrow> int \<Rightarrow> ILLMConfig \<Rightarrow> LLMManager \<Rightarrow> error + LLMManager" where
  "createInstance instanceId now cfg mgr =
     (case provider cfg of
        OtherProvider p \<Rightarrow> Inl (UnsupportedLLMProvider p)
      | _ \<Rightarrow>
          Inr (mgr\<lparr>instances := AList.update instanceId
                 \<lparr>instance_id = instanceId, config = cfg, instance_createdAt = now,
                  lastUsed = None\<rparr> (instances mgr)\<rparr>))"

text \<open>
  \<^verbatim>\<open>generateResponse\<close>: the instance is looked up, stamped with the current time, and the
  provider is called; \<open>reply\<close> is what the provider call comes back with (an error it
  throws, or the text). The stamp stays when the call fails.
\<close>

definition generateResponse ::
  "string \<Rightarrow> int \<Rightarrow> error + string \<Rightarrow> LLMManager \<Rightarrow> (error + string) \<times> LLMManager" where
  "generateResponse instanceId now reply mgr =
     (case map_of (instances mgr) instanceId of
        None \<Rightarrow> (Inl (LLMInstanceNotFound instanceId), mgr)
      | Some inst \<Rightarrow>
          let mgr1 = mgr\<lparr>instances := AList.update instanceId (inst\<lparr>lastUsed := Some now\<rparr>)
                                         (instances mgr)\<rparr>
          in (case provider (config inst) of
                OtherProvider p \<Rightarrow> (Inl (UnsupportedProvider p), mgr1)
              | _ \<Rightarrow> (reply, mgr1)))"

text \<open>
  \<^verbatim>\<open>cleanup\<close>: one pass over the entries of the map; an entry with a last-used time
  before \<open>now - 24h\<close> is deleted by its key.
\<close>

definition idle_since :: "int \<Rightarrow> ILLMInstance \<Rightarrow> bool" where
  "idle_since oneDayAgo inst = (case lastUsed inst of None \<Rightarrow> False | Some t \<Rightarrow> t < oneDayAgo)"

fun cleanup_loop ::
  "(string \<times> ILLMInstance) list \<Rightarrow> int \<Rightarrow> (string \<times> ILLMInstance) list \<Rightarrow> (string \<times> ILLMInstance) list" where
  "cleanup_loop [] oneDayAgo m = m"
| "cleanup_loop ((instanceId, inst) # rest) oneDayAgo m =
     cleanup_loop rest oneDayAgo
       (if idle_since oneDayAgo inst then AList.delete instanceId m else m)"

definition cleanup :: "int \<Rightarrow> LLMManager \<Rightarrow> LLMManager" where
  "cleanup now mgr =
     mgr\<lparr>instances := cleanup_loop (instances mgr) (now - 24 * 60 * 60 * 1000) (instances mgr)\<rparr>"

section \<open>The platform\<close>

text \<open>
  Built-in conversions of the JavaScript runtime that the code calls and that are not
  part of the repository: \<^verbatim>\<open>JSON.parse\<close> (\<open>None\<close> when it throws), \<^verbatim>\<open>String(v)\<close> as
  template literals apply it, \<^verbatim>\<open>Number(v)\<close> (\<open>None\<close> for NaN), \<^verbatim>\<open>new Date(v)\<close> and
  \<^verbatim>\<open>toISOString()\<close> of the date with a given time value.
  The code is modelled for any platform; the conversions that need no parsing are fixed
  below.
\<close>

record platform =
  JSON_parse :: "string \<Rightarrow> jsvalue option"
  String_of :: "jsvalue \<Rightarrow> string"
  Number_of :: "jsvalue \<Rightarrow> rat option"
  Date_of :: "jsvalue \<Rightarrow> Date"
  toISOString :: "int \<Rightarrow> string"

definition js_String :: "platform \<Rightarrow> jsvalue \<Rightarrow> string" where
  "js_String plat v = (case v of JStr s \<Rightarrow> s | _ \<Rightarrow> String_of plat v)"

definition js_Number :: "platform \<Rightarrow> jsvalue \<Rightarrow> rat option" where
  "js_Number plat v =
     (case v of
        JNum r \<Rightarrow> Some r
      | JNull \<Rightarrow> Some 0
      | JBool b \<Rightarrow> Some (if b then 1 else 0)
      | _ \<Rightarrow> Number_of plat v)"

text \<open>\<^verbatim>\<open>toLowerCase\<close> on the ASCII letters.\<close>

fun lower_char :: "char \<Rightarrow> char" where
  "lower_char (Char b0 b1 b2 b3 b4 b5 b6 b7) =
     (let n = (of_char (Char b0 b1 b2 b3 b4 b5 b6 b7) :: nat)
      in if 65 \<le> n \<and> n \<le> 90 then Char b0 b1 b2 b3 b4 True b6 b7
         else Char b0 b1 b2 b3 b4 b5 b6 b7)"

definition toLowerCase :: "string \<Rightarrow> string" where
  "toLowerCase s = map lower_char s"

text \<open>\<^verbatim>\<open>Math.round\<close>: to the nearest integer, halves upwards.\<close>

definition Math_round :: "rat \<Rightarrow> rat" where
  "Math_round x = of_int \<lfloor>x + 1 / 2\<rfloor>"

section \<open>The function mathUtils (functions/helper/mathUtils.ts)\<close>

text \<open>\<^verbatim>\<open>numbers.map(n => Number(n))\<close>, throwing at the first NaN.\<close>

fun to_numArray :: "platform \<Rightarrow> jsvalue list \<Rightarrow> error + rat list" where
  "to_numArray plat [] = Inr []"
| "to_numArray plat (n # ns) =
     (case js_Number plat n of
        None \<Rightarrow> Inl (HandlerError (''Invalid number: '' @ js_String plat n))
      | Some num \<Rightarrow>
          (case to_numArray plat ns of
             Inl e \<Rightarrow> Inl e
           | Inr nums \<Rightarrow> Inr (num # nums)))"

text \<open>The loop \<^verbatim>\<open>for (let i = 2; i <= num; i++) factorial *= i\<close>.\<close>

function factorial_loop :: "int \<Rightarrow> int \<Rightarrow> int \<Rightarrow> int" where
  "factorial_loop i num factorial =
     (if i \<le> num then factorial_loop (i + 1) num (factorial * i) else factorial)"
  by pat_completeness auto
termination
  by (relation "measure (\<lambda>(i, num, factorial). nat (num + 1 - i))") auto

definition math_result :: "string \<Rightarrow> jsvalue \<Rightarrow> rat \<Rightarrow> nat \<Rightarrow> jsvalue" where
  "math_result opname input r n =
     JObj [(''operation'', JStr opname), (''input'', input), (''result'', JNum r),
           (''count'', JNum (of_nat n))]"

definition mathUtils_switch :: "string \<Rightarrow> string \<Rightarrow> rat list \<Rightarrow> error + jsvalue" where
  "mathUtils_switch operation op numArray =
     (let input = JArr (map JNum numArray); n = length numArray in
      if op = ''sum'' then
        Inr (math_result ''sum'' input (foldl (+) 0 numArray) n)
      else if op = ''average'' then
        (if n = 0 then Inl (HandlerError ''Cannot calculate average of empty array'')
         else
           let avg = foldl (+) 0 numArray / of_nat n
           in Inr (math_result ''average'' input (Math_round (avg * 100) / 100) n))
      else if op = ''min'' then
        (if n = 0 then Inl (HandlerError ''Cannot find minimum of empty array'')
         else Inr (math_result ''minimum'' input (foldl min (hd numArray) numArray) n))
      else if op = ''max'' then
        (if n = 0 then Inl (HandlerError ''Cannot find maximum of empty array'')
         else Inr (math_result ''maximum'' input (foldl max (hd numArray) numArray) n))
      else if op = ''median'' then
        (if n = 0 then Inl (HandlerError ''Cannot find median of empty array'')
         else
           let sorted = sort numArray; middle = n div 2;
               median = (if n mod 2 = 0 then (sorted ! (middle - 1) + sorted ! middle) / 2
                         else sorted ! middle)
           in Inr (math_result ''median'' input median n))
      else if op = ''factorial'' then
        (if n \<noteq> 1 then Inl (HandlerError ''Factorial operation requires exactly one number'')
         else
           let num = hd numArray in
           if num < 0 \<or> of_int \<lfloor>num\<rfloor> \<noteq> num
           then Inl (HandlerError ''Factorial requires a non-negative integer'')
           else if num > 20
           then Inl (HandlerError
                  ''Factorial calculation limited to numbers <= 20 to prevent overflow'')
           else Inr (JObj [(''operation'', JStr ''factorial''), (''input'', JNum num),
                           (''result'', JNum (of_int (factorial_loop 2 \<lfloor>num\<rfloor> 1)))]))
      else Inl (HandlerError (''Unsupported operation: '' @ operation
                  @ ''. Supported operations: sum, average, min, max, median, factorial'')))"

definition mathUtils_handler :: "platform \<Rightarrow> jsvalue \<Rightarrow> error + jsvalue" where
  "mathUtils_handler plat params =
     (case get_field params ''numbers'' of
        Some (JArr numbers) \<Rightarrow>
          (case get_field params ''operation'' of
             Some (JStr operation) \<Rightarrow>
               if operation = [] then
                 Inl (HandlerError ''Operation parameter is required and must be a string'')
               else
                 (case to_numArray plat numbers of
                    Inl e \<Rightarrow> Inl e
                  | Inr numArray \<Rightarrow> mathUtils_switch operation (toLowerCase operation) numArray)
           | _ \<Rightarrow> Inl (HandlerError ''Operation parameter is required and must be a string''))
      | _ \<Rightarrow> Inl (HandlerError ''Numbers parameter is required and must be an array''))"

section \<open>A JSON reader\<close>

text \<open>
  A reader for JSON texts without \<^verbatim>\<open>\u\<close> escapes, used where a concrete platform is
  needed. Numbers are read exactly. The recursion over nested values is bounded by a
  counter that starts above the length of the text.
\<close>

definition dquote :: char where "dquote = CHR 0x22"
definition backslash :: char where "backslash = CHR 0x5C"

definition is_ws :: "char \<Rightarrow> bool" where
  "is_ws c = (c = CHR '' '' \<or> c = CHR 0x09 \<or> c = CHR 0x0A \<or> c = CHR 0x0D)"

definition skip_ws :: "string \<Rightarrow> string" where
  "skip_ws s = dropWhile is_ws s"

definition is_digit :: "char \<Rightarrow> bool" where
  "is_digit c = ((48::nat) \<le> of_char c \<and> of_char c \<le> (57::nat))"

definition digits_value :: "string \<Rightarrow> nat" where
  "digits_value ds = foldl (\<lambda>n c. 10 * n + (of_char c - 48)) 0 ds"

definition unescape :: "char \<Rightarrow> char option" where
  "unescape e =
     (if e = dquote then Some dquote
      else if e = backslash then Some backslash
      else if e = CHR ''/'' then Some (CHR ''/'')
      else if e = CHR ''b'' then Some (CHR 0x08)
      else if e = CHR ''f'' then Some (CHR 0x0C)
      else if e = CHR ''n'' then Some (CHR 0x0A)
      else if e = CHR ''r'' then Some (CHR 0x0D)
      else if e = CHR ''t'' then Some (CHR 0x09)
      else None)"

fun read_chars :: "string \<Rightarrow> string \<Rightarrow> (string \<times> string) option" where
  "read_chars acc [] = None"
| "read_chars acc [c] = (if c = dquote then Some (rev acc, []) else None)"
| "read_chars acc (c # e # cs) =
     (if c = dquote then Some (rev acc, e # cs)
      else if c = backslash then
        (case unescape e of None \<Rightarrow> None | Some ch \<Rightarrow> read_chars (ch # acc) cs)
      else if (of_char c :: nat) < 32 then None
      else read_chars (c # acc) (e # cs))"

definition read_number :: "string \<Rightarrow> (rat \<times> string) option" where
  "read_number s =
     (let (neg, s1) = (case s of c # cs \<Rightarrow> if c = CHR ''-'' then (True, cs) else (False, s)
                        | [] \<Rightarrow> (False, s));
          ip = takeWhile is_digit s1; s2 = dropWhile is_digit s1
      in if ip = [] \<or> (length ip > 1 \<and> hd ip = CHR ''0'') then None
         else
           let (fp, s3) = (case s2 of
                             c # cs \<Rightarrow> if c = CHR ''.'' then (takeWhile is_digit cs, dropWhile is_digit cs)
                                       else ([], s2)
                           | [] \<Rightarrow> ([], s2));
               frac_ok = (case s2 of c # cs \<Rightarrow> c \<noteq> CHR ''.'' \<or> fp \<noteq> [] | [] \<Rightarrow> True);
               (has_exp, eneg, ep, s4) =
                  (case s3 of
                     c # cs \<Rightarrow>
                       if c = CHR ''e'' \<or> c = CHR ''E'' then
                         (case cs of
                            d # ds \<Rightarrow>
                              if d = CHR ''-'' then (True, True, takeWhile is_digit ds, dropWhile is_digit ds)
                              else if d = CHR ''+'' then (True, False, takeWhile is_digit ds, dropWhile is_digit ds)
                              else (True, False, takeWhile is_digit cs, dropWhile is_digit cs)
                          | [] \<Rightarrow> (True, False, [], []))
                       else (False, False, [], s3)
                   | [] \<Rightarrow> (False, False, [], s3));
               exp_ok = (\<not> has_exp \<or> ep \<noteq> []);
               mant = (of_nat (digits_value ip) :: rat)
                      + of_nat (digits_value fp) / 10 ^ length fp;
               scaled = (if eneg then mant / 10 ^ digits_value ep else mant * 10 ^ digits_value ep)
           in if frac_ok \<and> exp_ok then Some (if neg then - scaled else scaled, s4) else None)"

fun read_value :: "nat \<Rightarrow> string \<Rightarrow> (jsvalue \<times> string) option"
and read_members :: "nat \<Rightarrow> (string \<times> jsvalue) list \<Rightarrow> string \<Rightarrow> (jsvalue \<times> string) option"
and read_elements :: "nat \<Rightarrow> jsvalue list \<Rightarrow> string \<Rightarrow> (jsvalue \<times> string) option" where
  "read_value 0 s = None"
| "read_value (Suc n) s =
     (case skip_ws s of
        [] \<Rightarrow> None
      | c # cs \<Rightarrow>
          if c = CHR ''{'' then
            (case skip_ws cs of
               [] \<Rightarrow> None
             | d # ds \<Rightarrow> if d = CHR ''}'' then Some (JObj [], ds) else read_members n [] (d # ds))
          else if c = CHR ''['' then
            (case skip_ws cs of
               [] \<Rightarrow> None
             | d # ds \<Rightarrow> if d = CHR '']'' then Some (JArr [], ds) else read_elements n [] (d # ds))
          else if c = dquote then
            (case read_chars [] cs of None \<Rightarrow> None | Some (str, rest) \<Rightarrow> Some (JStr str, rest))
          else if take 4 (c # cs) = ''true'' then Some (JBool True, drop 4 (c # cs))
          else if take 5 (c # cs) = ''false'' then Some (JBool False, drop 5 (c # cs))
          else if take 4 (c # cs) = ''null'' then Some (JNull, drop 4 (c # cs))
          else (case read_number (c # cs) of None \<Rightarrow> None | Some (r, rest) \<Rightarrow> Some (JNum r, rest)))"
| "read_members 0 acc s = None"
| "read_members (Suc n) acc s =
     (case s of
        [] \<Rightarrow> None
      | c # cs \<Rightarrow>
          if c \<noteq> dquote then None
          else
            (case read_chars [] cs of
               None \<Rightarrow> None
             | Some (key, rest) \<Rightarrow>
                 (case skip_ws rest of
                    [] \<Rightarrow> None
                  | d # ds \<Rightarrow>
                      if d \<noteq> CHR '':'' then None
                      else
                        (case read_value n ds of
                           None \<Rightarrow> None
                         | Some (v, rest1) \<Rightarrow>
                             (case skip_ws rest1 of
                                [] \<Rightarrow> None
                              | e # es \<Rightarrow>
                                  if e = CHR ''}'' then Some (JObj (AList.update key v acc), es)
                                  else if e = CHR '','' then
                                    read_members n (AList.update key v acc) (skip_ws es)
                                  else None)))))"
| "read_elements 0 acc s = None"
| "read_elements (Suc n) acc s =
     (case read_value n s of
        None \<Rightarrow> None
      | Some (v, rest) \<Rightarrow>
          (case skip_ws rest of
             [] \<Rightarrow> None
           | e # es \<Rightarrow>
               if e = CHR '']'' then Some (JArr (acc @ [v]), es)
               else if e = CHR '','' then read_elements n (acc @ [v]) es
               else None))"

definition json_read :: "string \<Rightarrow> jsvalue option" where
  "json_read s =
     (case read_value (Suc (length s)) s of
        None \<Rightarrow> None
      | Some (v, rest) \<Rightarrow> if skip_ws rest = [] then Some v else None)"

text \<open>A text between double quotes, for writing JSON texts.\<close>

definition q :: "string \<Rightarrow> string" where
  "q s = dquote # s @ [dquote]"

section \<open>AgentMaster.parseLLMDecision\<close>

text \<open>
  \<^verbatim>\<open>response.match(/\{[\s\S]*\}/)\<close>: the match starts at the first opening brace and,
  being greedy, ends at the last closing brace after it; there is none when no closing
  brace follows the first opening one.
\<close>

definition jsonMatch :: "string \<Rightarrow> string option" where
  "jsonMatch response =
     (let from_brace = dropWhile (\<lambda>c. c \<noteq> CHR ''{'') response;
          matched = rev (dropWhile (\<lambda>c. c \<noteq> CHR ''}'') (rev from_brace))
      in if matched = [] then None else Some matched)"

text \<open>The body of the \<^verbatim>\<open>try\<close>, with its three throws.\<close>

definition parseLLMDecision_try :: "platform \<Rightarrow> string \<Rightarrow> error + jsvalue" where
  "parseLLMDecision_try plat response =
     (case jsonMatch response of
        None \<Rightarrow> Inl NoJSONFound
      | Some txt \<Rightarrow>
          (case JSON_parse plat txt of
             None \<Rightarrow> Inl JSONSyntaxError
           | Some decision \<Rightarrow>
               if \<not> truthy_opt (get_field decision ''action'') then Inl MissingAction
               else Inr decision))"

definition fallbackDecision :: jsvalue where
  "fallbackDecision =
     JObj [(''action'', JStr ''direct_response''),
           (''response_message'',
            JStr ''I understand your message, but I need more specific instructions to help you effectively.'')]"

text \<open>The \<^verbatim>\<open>catch\<close> turns every throw into the fallback decision.\<close>

definition parseLLMDecision :: "platform \<Rightarrow> string \<Rightarrow> jsvalue" where
  "parseLLMDecision plat response =
     (case parseLLMDecision_try plat response of
        Inl e \<Rightarrow> fallbackDecision
      | Inr decision \<Rightarrow> decision)"

section \<open>MessagingManager: the outbound side\<close>

record IIncomingMessage =
  msg_id :: string
  msg_content :: string
  msg_metadata :: "(string \<times> jsvalue) list option"
  msg_timestamp :: "Date option"

record IOutgoingMessage =
  out_id :: string
  out_content :: jsvalue
  out_metadata :: "(string \<times> jsvalue) list"
  out_timestamp :: Date

text \<open>
  The state of the gateway as \<^verbatim>\<open>sendMessage\<close> finds it: the connected flag, whether the
  connection promise it may have to await rejects, whether a channel object is there, and
  whether the broker takes a publish. \<open>published\<close> collects what went out.
\<close>

record MessagingManager =
  isConnected :: bool
  connectionPromise_rejects :: bool
  channel :: bool
  broker_confirms :: bool
  published :: "IOutgoingMessage list"

definition createOutgoingMessage ::
  "string \<Rightarrow> int \<Rightarrow> jsvalue \<Rightarrow> (string \<times> jsvalue) list \<Rightarrow> IOutgoingMessage" where
  "createOutgoingMessage uuid now text metadata =
     \<lparr>out_id = uuid, out_content = text, out_metadata = metadata, out_timestamp = Date now\<rparr>"

text \<open>
  The schema \<^verbatim>\<open>{id: Joi.string().required(), content: Joi.string().required(),
  metadata: Joi.object().optional(), timestamp: Joi.date().required()}\<close>: a string passes
  when it is a string and not empty, a date when it is a valid date.
\<close>

definition validateOutgoingMessage :: "IOutgoingMessage \<Rightarrow> IOutgoingMessage option" where
  "validateOutgoingMessage msg =
     (if out_id msg \<noteq> []
         \<and> (case out_content msg of JStr s \<Rightarrow> s \<noteq> [] | _ \<Rightarrow> False)
         \<and> out_timestamp msg \<noteq> InvalidDate
      then Some msg else None)"

definition waitForConnection :: "MessagingManager \<Rightarrow> error + unit" where
  "waitForConnection mm =
     (if \<not> isConnected mm \<and> connectionPromise_rejects mm then Inl ConnectionFailed
      else Inr ())"

definition sendMessage ::
  "IOutgoingMessage \<Rightarrow> MessagingManager \<Rightarrow> (error + unit) \<times> MessagingManager" where
  "sendMessage msg mm =
     (case waitForConnection mm of
        Inl e \<Rightarrow> (Inl e, mm)
      | Inr u \<Rightarrow>
          if \<not> channel mm then (Inl ChannelNotAvailable, mm)
          else
            (case validateOutgoingMessage msg of
               None \<Rightarrow> (Inl InvalidMessageFormat, mm)
             | Some validated \<Rightarrow>
                 if broker_confirms mm
                 then (Inr (), mm\<lparr>published := published mm @ [validated]\<rparr>)
                 else (Inl PublishFailed, mm)))"

section \<open>AgentMaster\<close>

record IOrchestrationRequest =
  req_message :: IIncomingMessage
  req_jobId :: string

record AgentMaster =
  jobsQueueManager :: JobsQueueManager
  llmManager :: LLMManager
  messagingManager :: MessagingManager
  orchestrationMasterInstanceId :: string
  isInitialized :: bool
  activeRequests :: "(string \<times> IOrchestrationRequest) list"

text \<open>
  What the world contributes while one message is handled: the platform, the identifiers
  \<^verbatim>\<open>uuidv4()\<close> draws, the clock at arrival, what the provider answers to the analysis
  prompt and to the summary prompt, the queue events that arrive before each status poll,
  and the counts the queue reports.
\<close>

record environment =
  env_platform :: platform
  requestId :: string
  jobUuid :: string
  responseUuid :: string
  errorUuid :: string
  env_now :: int
  decision_reply :: "error + string"
  contextual_reply :: "error + string"
  job_events :: "queue_event list list"
  job_counts :: "nat \<times> nat \<times> nat"

text \<open>Decimal digits of a natural number, for the template strings.\<close>

function show_nat :: "nat \<Rightarrow> string" where
  "show_nat n = (if n < 10 then [''0123456789'' ! n]
                 else show_nat (n div 10) @ [''0123456789'' ! (n mod 10)])"
  by pat_completeness auto
termination
  by (relation "measure id") auto

text \<open>
  \<^verbatim>\<open>waitForJobCompletion\<close>: every second the job is looked up; a missing job, a failed
  job and, after those checks, an elapsed time above the timeout reject; a completed job
  resolves with its result. Queue events that arrive in the meantime are applied first.
\<close>

function waitForJobCompletion ::
  "string \<Rightarrow> int \<Rightarrow> int \<Rightarrow> int \<Rightarrow> queue_event list list \<Rightarrow> JobsQueueManager
   \<Rightarrow> (error + jsvalue option) \<times> JobsQueueManager" where
  "waitForJobCompletion jobId startTime elapsed limit evs m =
     (let arrived = (case evs of [] \<Rightarrow> [] | e # es \<Rightarrow> e);
          m1 = fold (\<lambda>ev. handleEvent ev (startTime + elapsed)) arrived m
      in case getJob m1 jobId of
           None \<Rightarrow> (Inl JobNotFound, m1)
         | Some job \<Rightarrow>
             if status job = COMPLETED then (Inr (result job), m1)
             else if status job = FAILED then
               (Inl (JobFailed (case job_error job of
                                  None \<Rightarrow> ''Job failed''
                                | Some e \<Rightarrow> if e = [] then ''Job failed'' else e)), m1)
             else if elapsed > limit then (Inl JobExecutionTimeout, m1)
             else waitForJobCompletion jobId startTime (elapsed + 1000) limit (tl evs) m1)"
  by pat_completeness auto
termination
  by (relation "measure (\<lambda>(jobId, startTime, elapsed, limit, evs, m).
                           nat (limit + 1000 - elapsed))")
     auto

text \<open>\<^verbatim>\<open>x || d\<close> on values.\<close>

definition or_else :: "jsvalue option \<Rightarrow> jsvalue \<Rightarrow> jsvalue" where
  "or_else x d = (case x of None \<Rightarrow> d | Some v \<Rightarrow> if truthy v then v else d)"

text \<open>\<^verbatim>\<open>decision.execution_type || JobExecutionType.INSTANT\<close>, read as the enum.\<close>

definition executionType_of :: "jsvalue option \<Rightarrow> JobExecutionType" where
  "executionType_of x =
     (let v = or_else x (JStr ''instant'')
      in if v = JStr ''instant'' then INSTANT
         else if v = JStr ''schedule'' then SCHEDULE
         else if v = JStr ''repeat'' then REPEAT
         else OtherExecutionType v)"

text \<open>\<^verbatim>\<open>d ? new Date(d) : undefined\<close>.\<close>

definition date_field :: "platform \<Rightarrow> jsvalue option \<Rightarrow> Date option" where
  "date_field plat x =
     (case x of None \<Rightarrow> None | Some v \<Rightarrow> if truthy v then Some (Date_of plat v) else None)"

text \<open>A registry lookup with a key of any type: only a string can be a key of the map.\<close>

definition getFunction_any :: "FunctionsManager \<Rightarrow> jsvalue \<Rightarrow> ICustomFunction option" where
  "getFunction_any fm v = (case v of JStr s \<Rightarrow> getFunction fm s | _ \<Rightarrow> None)"

definition generateContextualResponse ::
  "environment \<Rightarrow> jsvalue \<Rightarrow> jsvalue option \<Rightarrow> AgentMaster \<Rightarrow> jsvalue \<times> AgentMaster" where
  "generateContextualResponse env fnName suggestedResponse am =
     (case generateResponse (orchestrationMasterInstanceId am) (env_now env)
             (contextual_reply env) (llmManager am) of
        (Inr text, llm1) \<Rightarrow> (JStr text, am\<lparr>llmManager := llm1\<rparr>)
      | (Inl e, llm1) \<Rightarrow>
          (or_else suggestedResponse
             (JStr (''I've completed the '' @ js_String (env_platform env) fnName
                    @ '' function successfully.'')),
           am\<lparr>llmManager := llm1\<rparr>))"

text \<open>
  \<^verbatim>\<open>executeFunctionDecision\<close>. The body of the \<^verbatim>\<open>try\<close> returns the response text or the
  error thrown, the job ids pushed so far and the state; the \<^verbatim>\<open>catch\<close> turns an error
  into a response text.
\<close>

definition executeFunctionDecision_try ::
  "environment \<Rightarrow> jsvalue \<Rightarrow> AgentMaster \<Rightarrow> (error + jsvalue) \<times> string list \<times> AgentMaster" where
  "executeFunctionDecision_try env decision am =
     (let plat = env_platform env; jq = jobsQueueManager am in
      case get_field decision ''function_name'' of
        None \<Rightarrow> (Inl FunctionNameRequired, [], am)
      | Some fname \<Rightarrow>
          if \<not> truthy fname then (Inl FunctionNameRequired, [], am)
          else if getFunction_any (functionsManager jq) fname = None
          then (Inl (FunctionNotFound (js_String plat fname)), [], am)
          else
            let jobData = \<lparr>functionName = js_String plat fname,
                   job_parameters = or_else (get_field decision ''parameters'') (JObj []),
                   executionType = executionType_of (get_field decision ''execution_type''),
                   scheduleTime = date_field plat (get_field decision ''schedule_time''),
                   repeatInterval = get_field decision ''repeat_interval'',
                   repeatDeadline = date_field plat (get_field decision ''repeat_deadline''),
                   priority = None, job_retries = None\<rparr>
            in case addJob (jobUuid env) (env_now env) jobData jq of
                 (Inl e, jq1) \<Rightarrow> (Inl e, [], am\<lparr>jobsQueueManager := jq1\<rparr>)
               | (Inr jobId, jq1) \<Rightarrow>
                   if executionType jobData = INSTANT then
                     (case waitForJobCompletion jobId (env_now env) 1000 30000
                             (job_events env) jq1 of
                        (Inl e, jq2) \<Rightarrow> (Inl e, [jobId], am\<lparr>jobsQueueManager := jq2\<rparr>)
                      | (Inr res, jq2) \<Rightarrow>
                          (case generateContextualResponse env fname
                                  (get_field decision ''response_message'')
                                  (am\<lparr>jobsQueueManager := jq2\<rparr>) of
                             (text, am1) \<Rightarrow> (Inr text, [jobId], am1)))
                   else
                     (Inr (or_else (get_field decision ''response_message'')
                             (JStr (''I've scheduled the '' @ js_String plat fname
                                    @ '' function to run ''
                                    @ (if executionType jobData = SCHEDULE
                                       then ''at the specified time'' else ''repeatedly'')
                                    @ ''.''))),
                      [jobId], am\<lparr>jobsQueueManager := jq1\<rparr>))"

definition executeFunctionDecision ::
  "environment \<Rightarrow> jsvalue \<Rightarrow> AgentMaster \<Rightarrow> jsvalue \<times> string list \<times> AgentMaster" where
  "executeFunctionDecision env decision am =
     (case executeFunctionDecision_try env decision am of
        (Inr text, executedJobs, am1) \<Rightarrow> (text, executedJobs, am1)
      | (Inl e, executedJobs, am1) \<Rightarrow>
          (JStr (''I encountered an error while executing the requested function: ''
                 @ error_message e), executedJobs, am1))"

text \<open>\<^verbatim>\<open>cancelJob\<close> with a key of any type: an id that is not a string is in no map.\<close>

definition cancelJobDecision :: "environment \<Rightarrow> jsvalue \<Rightarrow> AgentMaster \<Rightarrow> jsvalue \<times> AgentMaster" where
  "cancelJobDecision env decision am =
     (let plat = env_platform env in
      case get_field decision ''job_id'' of
        None \<Rightarrow> (JStr (''Error cancelling job: '' @ error_message JobIdRequired), am)
      | Some jid \<Rightarrow>
          if \<not> truthy jid
          then (JStr (''Error cancelling job: '' @ error_message JobIdRequired), am)
          else
            let (cancelled, jq1) =
                  (case jid of
                     JStr s \<Rightarrow> cancelJob s (env_now env) (jobsQueueManager am)
                   | _ \<Rightarrow> (False, jobsQueueManager am))
            in (JStr (if cancelled
                      then ''Job '' @ js_String plat jid @ '' has been cancelled successfully.''
                      else ''Could not cancel job '' @ js_String plat jid
                           @ ''. It may not exist or already be completed.''),
                am\<lparr>jobsQueueManager := jq1\<rparr>))"

text \<open>The five health records, as the number of modules that report healthy.\<close>

definition healthy_modules :: "AgentMaster \<Rightarrow> nat" where
  "healthy_modules am =
     length (filter id
       [isInitialized am, True, isConnected (messagingManager am), True,
        instances (llmManager am) \<noteq> []])"

definition getStatusDecision :: "environment \<Rightarrow> AgentMaster \<Rightarrow> jsvalue" where
  "getStatusDecision env am =
     (if \<not> q_up (queue (jobsQueueManager am))
      then JStr (''Error getting status: '' @ error_message QueueUnavailable)
      else
        (case job_counts env of
           (active, waiting, completed) \<Rightarrow>
             JStr ([CHR 0x0A] @ ''System Status:'' @ [CHR 0x0A]
               @ ''- Jobs: '' @ show_nat active @ '' active, '' @ show_nat waiting
               @ '' waiting, '' @ show_nat completed @ '' completed'' @ [CHR 0x0A]
               @ ''- Functions: ''
               @ show_nat (length (functions_map (functionsManager (jobsQueueManager am))))
               @ '' loaded'' @ [CHR 0x0A]
               @ ''- LLM Instances: '' @ show_nat (length (instances (llmManager am)))
               @ '' available'' @ [CHR 0x0A]
               @ ''- Modules: '' @ show_nat (healthy_modules am) @ ''/5 healthy'')))"

text \<open>\<^verbatim>\<open>executeDecision\<close>: the switch on the action.\<close>

definition executeDecision ::
  "environment \<Rightarrow> jsvalue \<Rightarrow> AgentMaster \<Rightarrow> jsvalue \<times> string list option \<times> AgentMaster" where
  "executeDecision env decision am =
     (let action = get_field decision ''action'' in
      if action = Some (JStr ''execute_function'') then
        (case executeFunctionDecision env decision am of
           (text, executedJobs, am1) \<Rightarrow> (text, Some executedJobs, am1))
      else if action = Some (JStr ''cancel_job'') then
        (case cancelJobDecision env decision am of (text, am1) \<Rightarrow> (text, None, am1))
      else if action = Some (JStr ''get_status'') then
        (getStatusDecision env am, None, am)
      else
        (or_else (get_field decision ''response_message'') (JStr ''I've processed your message.''),
         None, am))"

datatype response_status = success | failure

record IOrchestrationResponse =
  response :: IOutgoingMessage
  resp_executedJobs :: "string list option"
  resp_status :: response_status
  resp_error :: "string option"

definition apology :: "error \<Rightarrow> jsvalue" where
  "apology e =
     JStr (''I apologize, but I encountered an error while processing your request: ''
           @ error_message e)"

text \<open>
  The body of the \<^verbatim>\<open>try\<close> of \<^verbatim>\<open>orchestrationMaster\<close>: the analysis call to the model,
  the check of its reply, the decision and its execution. An error leaves with the state
  reached so far.
\<close>

definition orchestrationMaster_try ::
  "environment \<Rightarrow> IOrchestrationRequest \<Rightarrow> AgentMaster
   \<Rightarrow> (error + IOrchestrationResponse) \<times> AgentMaster" where
  "orchestrationMaster_try env request am =
     (case generateResponse (orchestrationMasterInstanceId am) (env_now env)
             (decision_reply env) (llmManager am) of
        (Inl e, llm1) \<Rightarrow> (Inl e, am\<lparr>llmManager := llm1\<rparr>)
      | (Inr content, llm1) \<Rightarrow>
          if content = [] then (Inl InvalidLLMResponse, am\<lparr>llmManager := llm1\<rparr>)
          else
            let decision = parseLLMDecision (env_platform env) content in
            (case executeDecision env decision (am\<lparr>llmManager := llm1\<rparr>) of
               (text, executedJobs, am1) \<Rightarrow>
                 let responseMessage =
                       createOutgoingMessage (responseUuid env) (env_now env) text
                         ([(''originalMessageId'', JStr (msg_id (req_message request)))]
                          @ (case get_field decision ''action'' of
                               None \<Rightarrow> [] | Some a \<Rightarrow> [(''action'', a)])
                          @ (case executedJobs of
                               None \<Rightarrow> []
                             | Some js \<Rightarrow> [(''executedJobs'', JArr (map JStr js))])
                          @ [(''isResponse'', JBool True)])
                 in (Inr \<lparr>response = responseMessage, resp_executedJobs = executedJobs,
                          resp_status = success, resp_error = None\<rparr>, am1)))"

definition orchestrationMaster ::
  "environment \<Rightarrow> IOrchestrationRequest \<Rightarrow> AgentMaster \<Rightarrow> IOrchestrationResponse \<times> AgentMaster" where
  "orchestrationMaster env request am =
     (case orchestrationMaster_try env request am of
        (Inr resp, am1) \<Rightarrow> (resp, am1)
      | (Inl e, am1) \<Rightarrow>
          (\<lparr>response =
              createOutgoingMessage (responseUuid env) (env_now env) (apology e)
                [(''error'', JBool True),
                 (''originalMessageId'', JStr (msg_id (req_message request))),
                 (''errorTimestamp'', JStr (toISOString (env_platform env) (env_now env))),
                 (''isResponse'', JBool True)],
            resp_executedJobs = None, resp_status = failure,
            resp_error = Some (error_message e)\<rparr>, am1))"

text \<open>
  \<^verbatim>\<open>handleIncomingMessage\<close>. Up to the registration of the message in
  \<^verbatim>\<open>activeRequests\<close> the handler runs without a suspension point: the three guards and
  the registration are one step. The rest runs across suspension points; it is
  \<open>process_request\<close>.
\<close>

datatype admission = Duplicate | Invalid | IsResponse | Admitted

definition admission_of :: "IIncomingMessage \<Rightarrow> AgentMaster \<Rightarrow> admission" where
  "admission_of message am =
     (if map_of (activeRequests am) (msg_id message) \<noteq> None then Duplicate
      else if msg_id message = [] \<or> msg_content message = [] \<or> msg_timestamp message = None
      then Invalid
      else if (case msg_metadata message of
                 None \<Rightarrow> False
               | Some md \<Rightarrow> truthy_opt (map_of md ''isResponse''))
      then IsResponse
      else Admitted)"

definition register_request :: "environment \<Rightarrow> IIncomingMessage \<Rightarrow> AgentMaster \<Rightarrow> AgentMaster" where
  "register_request env message am =
     am\<lparr>activeRequests :=
          AList.update (msg_id message) \<lparr>req_message = message, req_jobId = requestId env\<rparr>
            (activeRequests am)\<rparr>"

text \<open>How one call of the handler ends.\<close>

datatype handling =
    DroppedDuplicate
  | RejectedInvalid
  | SkippedResponse
  | Processed
  | ErrorCaught error
  | ErrorThrown error

text \<open>
  After the registration: orchestrate, send the response; the \<^verbatim>\<open>catch\<close> sends an
  apology only if the message is not in \<^verbatim>\<open>activeRequests\<close>; the \<^verbatim>\<open>finally\<close> removes
  the message from \<^verbatim>\<open>activeRequests\<close>. (\<^verbatim>\<open>orchestrationMaster\<close> always returns a
  response object with a response, so the check between the two never throws.)
\<close>

definition process_request ::
  "environment \<Rightarrow> IIncomingMessage \<Rightarrow> AgentMaster \<Rightarrow> handling \<times> AgentMaster" where
  "process_request env message am =
     (let request = \<lparr>req_message = message, req_jobId = requestId env\<rparr> in
      case orchestrationMaster env request am of
        (resp, am1) \<Rightarrow>
          (case sendMessage (response resp) (messagingManager am1) of
             (Inr u, mm1) \<Rightarrow>
               (Processed,
                am1\<lparr>messagingManager := mm1,
                    activeRequests := AList.delete (msg_id message) (activeRequests am1)\<rparr>)
           | (Inl e, mm1) \<Rightarrow>
               if map_of (activeRequests am1) (msg_id message) = None then
                 (case sendMessage
                         (createOutgoingMessage (errorUuid env) (env_now env) (apology e)
                            [(''error'', JBool True),
                             (''requestId'', JStr (requestId env)),
                             (''originalMessageId'', JStr (msg_id message)),
                             (''errorTimestamp'',
                              JStr (toISOString (env_platform env) (env_now env))),
                             (''isResponse'', JBool True)]) mm1 of
                    (Inr u, mm2) \<Rightarrow>
                      (ErrorCaught e,
                       am1\<lparr>messagingManager := mm2,
                           activeRequests := AList.delete (msg_id message) (activeRequests am1)\<rparr>)
                  | (Inl e2, mm2) \<Rightarrow>
                      (ErrorThrown e2,
                       am1\<lparr>messagingManager := mm2,
                           activeRequests := AList.delete (msg_id message) (activeRequests am1)\<rparr>))
               else
                 (ErrorCaught e,
                  am1\<lparr>messagingManager := mm1,
                      activeRequests := AList.delete (msg_id message) (activeRequests am1)\<rparr>)))"

definition handleIncomingMessage ::
  "environment \<Rightarrow> IIncomingMessage \<Rightarrow> AgentMaster \<Rightarrow> handling \<times> AgentMaster" where
  "handleIncomingMessage env message am =
     (case admission_of message am of
        Duplicate \<Rightarrow> (DroppedDuplicate, am)
      | Invalid \<Rightarrow> (RejectedInvalid, am)
      | IsResponse \<Rightarrow> (SkippedResponse, am)
      | Admitted \<Rightarrow> process_request env message (register_request env message am))"

section \<open>Example data\<close>

text \<open>
  A platform whose \<^verbatim>\<open>JSON.parse\<close> is the reader above; the examples consult none of
  its other conversions.
\<close>

definition demo_platform :: platform where
  "demo_platform = \<lparr>JSON_parse = json_read, String_of = (\<lambda>v. ''[object Object]''),
     Number_of = (\<lambda>v. None), Date_of = (\<lambda>v. InvalidDate),
     toISOString = (\<lambda>t. ''1970-01-01T00:00:00.000Z'')\<rparr>"

text \<open>The registry entry of \<^verbatim>\<open>mathUtils\<close>; its handler settles at once.\<close>

definition mathUtils_definition :: IFunctionDefinition where
  "mathUtils_definition =
     \<lparr>name = ''mathUtils'',
      description = ''Mathematical utility functions for basic calculations, statistics, and number operations'',
      ftype = HELPER,
      parameters = [\<lparr>param_name = ''numbers'', param_type = ''array'', required = True\<rparr>,
                    \<lparr>param_name = ''operation'', param_type = ''string'', required = True\<rparr>],
      timeout = Some 10000, retries = None\<rparr>"

definition mathUtilsFunction :: "platform \<Rightarrow> ICustomFunction" where
  "mathUtilsFunction plat =
     \<lparr>func_definition = mathUtils_definition,
      handler = (\<lambda>params. Settles 0 (mathUtils_handler plat params))\<rparr>"

definition demo_functions :: FunctionsManager where
  "demo_functions = \<lparr>functions_map = [(''mathUtils'', mathUtilsFunction demo_platform)]\<rparr>"

text \<open>A job engine that has one completed job on record.\<close>

definition demo_jobdata :: IJobData where
  "demo_jobdata = \<lparr>functionName = ''mathUtils'', job_parameters = JObj [], executionType = INSTANT,
     scheduleTime = None, repeatInterval = None, repeatDeadline = None, priority = None,
     job_retries = None\<rparr>"

definition demo_job :: IJob where
  "demo_job = \<lparr>job_id = ''job-1'', data = demo_jobdata, status = COMPLETED, createdAt = 1000,
     startedAt = Some 1100, completedAt = Some 1200, result = Some (JNum 32), job_error = None\<rparr>"

definition demo_manager :: JobsQueueManager where
  "demo_manager = \<lparr>functionsManager = demo_functions, jobs = [(''job-1'', demo_job)],
     scheduledJobs = [], repeatJobs = [], queue = \<lparr>q_entries = [], q_up = True\<rparr>\<rparr>"


definition schedule_jobdata :: "string \<Rightarrow> Date option \<Rightarrow> IJobData" where
  "schedule_jobdata fn t =
     demo_jobdata\<lparr>functionName := fn, executionType := SCHEDULE, scheduleTime := t\<rparr>"

text \<open>A function that answers after \<open>t\<close> milliseconds, with a declared timeout.\<close>

definition sleeper :: "int option \<Rightarrow> nat \<Rightarrow> ICustomFunction" where
  "sleeper declared t =
     \<lparr>func_definition = \<lparr>name = ''sleeper'', description = ''sleeps, then answers'',
         ftype = HELPER, parameters = [], timeout = declared, retries = None\<rparr>,
      handler = (\<lambda>params. Settles t (Inr (JStr ''done'')))\<rparr>"

definition sleeper_registry :: "int option \<Rightarrow> nat \<Rightarrow> FunctionsManager" where
  "sleeper_registry declared t = \<lparr>functions_map = [(''sleeper'', sleeper declared t)]\<rparr>"

text \<open>
  Four model instances at time 100000000: one last used long ago, one recently, one
  exactly 24 hours ago, one never.
\<close>

definition demo_config :: ILLMConfig where
  "demo_config = \<lparr>provider = ANTHROPIC, apiKey = ''key'', model = ''claude-3-sonnet-20240229'',
     systemPrompt = None\<rparr>"

definition demo_instance :: "string \<Rightarrow> int option \<Rightarrow> ILLMInstance" where
  "demo_instance k t =
     \<lparr>instance_id = k, config = demo_config, instance_createdAt = 0, lastUsed = t\<rparr>"

definition demo_llm :: LLMManager where
  "demo_llm = \<lparr>instances = [(''stale'', demo_instance ''stale'' (Some 1000)),
                             (''fresh'', demo_instance ''fresh'' (Some 90000000)),
                             (''edge'', demo_instance ''edge'' (Some 13600000)),
                             (''unused'', demo_instance ''unused'' None)]\<rparr>"

text \<open>
  An orchestrator with a usable transport, the message of the averaging scenario, and
  the replies of the model: a decision to run \<^verbatim>\<open>mathUtils\<close> at once, wrapped in prose,
  and a summary text.
\<close>

definition demo_agent :: AgentMaster where
  "demo_agent =
     \<lparr>jobsQueueManager =
        \<lparr>functionsManager = demo_functions, jobs = [], scheduledJobs = [], repeatJobs = [],
         queue = \<lparr>q_entries = [], q_up = True\<rparr>\<rparr>,
      llmManager = \<lparr>instances = [(''orchestrator'', demo_instance ''orchestrator'' None)]\<rparr>,
      messagingManager = \<lparr>isConnected = True, connectionPromise_rejects = False, channel = True,
                           broker_confirms = True, published = []\<rparr>,
      orchestrationMasterInstanceId = ''orchestrator'',
      isInitialized = True,
      activeRequests = []\<rparr>"

definition demo_message :: IIncomingMessage where
  "demo_message =
     \<lparr>msg_id = ''msg-1'', msg_content = ''Calculate the average of 10, 20, 30, 45, 55'',
      msg_metadata = Some [(''userId'', JStr ''u1'')], msg_timestamp = Some (Date 1000)\<rparr>"

definition average_decision_text :: string where
  "average_decision_text =
     ''Here is my decision: {'' @ q ''action'' @ '': '' @ q ''execute_function'' @ '', ''
     @ q ''function_name'' @ '': '' @ q ''mathUtils'' @ '', ''
     @ q ''parameters'' @ '': {'' @ q ''numbers'' @ '': [10, 20, 30, 45, 55], ''
     @ q ''operation'' @ '': '' @ q ''average'' @ ''}, ''
     @ q ''execution_type'' @ '': '' @ q ''instant'' @ ''}''"

definition average_decision :: jsvalue where
  "average_decision =
     JObj [(''action'', JStr ''execute_function''), (''function_name'', JStr ''mathUtils''),
           (''parameters'',
            JObj [(''numbers'', JArr [JNum 10, JNum 20, JNum 30, JNum 45, JNum 55]),
                  (''operation'', JStr ''average'')]),
           (''execution_type'', JStr ''instant'')]"

definition average_result :: jsvalue where
  "average_result =
     JObj [(''operation'', JStr ''average''),
           (''input'', JArr [JNum 10, JNum 20, JNum 30, JNum 45, JNum 55]),
           (''result'', JNum 32), (''count'', JNum 5)]"

text \<open>A reply whose action is present and is the empty string.\<close>

definition empty_action_text :: string where
  "empty_action_text = ''{'' @ q ''action'' @ '': '' @ q [] @ '', ''
     @ q ''response_message'' @ '': '' @ q ''Hello'' @ ''}''"

definition empty_action_decision :: jsvalue where
  "empty_action_decision = JObj [(''action'', JStr []), (''response_message'', JStr ''Hello'')]"

definition demo_env :: "string \<Rightarrow> environment" where
  "demo_env summary =
     \<lparr>env_platform = demo_platform, requestId = ''req-1'', jobUuid = ''job-7'',
      responseUuid = ''out-1'', errorUuid = ''out-2'', env_now = 2000,
      decision_reply = Inr average_decision_text,
      contextual_reply = Inr summary,
      job_events = [[QueueActive ''job-7''], [QueueCompleted ''job-7'' average_result]],
      job_counts = (0, 0, 0)\<rparr>"

section \<open>Properties of the job engine\<close>

lemma updateJobStatus_unknown:
  "map_of (jobs m) jobId = None \<Longrightarrow> updateJobStatus jobId st res err now m = m"
  by (simp add: updateJobStatus_def)

text \<open>
  Claim C10. A status update for a job id that is not in the job-status map changes
  nothing: \<^verbatim>\<open>updateJobStatus\<close> returns the state it was given, whatever the status,
  result and error, and so does the handler of every worker or queue event that names
  that id. No entry is created and no record is touched.
\<close>

theorem status_update_for_unknown_job_changes_nothing:
  assumes "getJob m jobId = None"
  shows "updateJobStatus jobId st res err now m = m \<and>
         (event_job ev = Some jobId \<longrightarrow> handleEvent ev now m = m)"
proof -
  from assms have unknown: "map_of (jobs m) jobId = None" by (simp add: getJob_def)
  have upd: "\<And>s r e. updateJobStatus jobId s r e now m = m"
    using unknown by (rule updateJobStatus_unknown)
  have "handleEvent ev now m = m" if "event_job ev = Some jobId"
    using that upd by (cases ev) auto
  with upd show ?thesis by blast
qed

theorem status_update_for_unknown_job_witness:
  "getJob demo_manager ''job-2'' = None \<and>
   updateJobStatus ''job-2'' FAILED (Some JNull) (Some ''boom'') 5000 demo_manager = demo_manager \<and>
   handleEvent (QueueCompleted ''job-2'' (JNum 1)) 5000 demo_manager = demo_manager"
proof -
  have h: "getJob demo_manager ''job-2'' = None"
    by (simp add: getJob_def demo_manager_def)
  from status_update_for_unknown_job_changes_nothing
         [OF h, of FAILED "Some JNull" "Some ''boom''" 5000 "QueueCompleted ''job-2'' (JNum 1)"]
  show ?thesis using h by simp
qed

text \<open>
  \<^verbatim>\<open>cancelJob\<close> never looks at the status of the job it cancels: for every job on
  record, while the queue answers, it returns true and leaves the job cancelled.
\<close>

lemma cancelJob_known:
  assumes "getJob m jobId = Some job" and "q_up (queue m)"
  shows "fst (cancelJob jobId now m) = True \<and>
         map_option status (getJob (snd (cancelJob jobId now m)) jobId) = Some CANCELLED"
  using assms
  by (auto simp add: cancelJob_def getJob_def queue_getJob_def queue_remove_def
      updateJobStatus_def Let_def update_conv' split: option.splits)

text \<open>
  Claim C2 says that cancelling a job in a terminal state returns false and keeps its
  status. On the code a completed job is cancelled like any other: the call returns true
  and the status becomes cancelled.
\<close>

theorem cancelJob_on_completed_job:
  "map_option status (getJob demo_manager ''job-1'') = Some COMPLETED \<and>
   fst (cancelJob ''job-1'' 2000 demo_manager) = True \<and>
   map_option status (getJob (snd (cancelJob ''job-1'' 2000 demo_manager)) ''job-1'')
     = Some CANCELLED"
  by (simp add: cancelJob_def getJob_def demo_manager_def demo_job_def queue_getJob_def
      updateJobStatus_def)





text \<open>\<^verbatim>\<open>addJob\<close> for a scheduled job whose function is registered.\<close>

lemma addJob_schedule_result:
  assumes "executionType jd = SCHEDULE"
      and "getFunction (functionsManager m) (functionName jd) \<noteq> None"
  shows "addJob jobId now jd m =
     (let m1 = m\<lparr>jobs := AList.update jobId
                  \<lparr>job_id = jobId, data = jd, status = PENDING, createdAt = now,
                   startedAt = None, completedAt = None, result = None, job_error = None\<rparr>
                  (jobs m)\<rparr>
      in case addScheduledJob jobId jd now m1 of
           Inl e \<Rightarrow> (Inl e, m1)
         | Inr m2 \<Rightarrow> (Inr jobId, m2))"
  using assms by (auto simp add: addJob_def Let_def)

text \<open>
  An invalid date gets past the guard of \<^verbatim>\<open>addScheduledJob\<close>: its delay is NaN,
  \<^verbatim>\<open>delay <= 0\<close> is false, and the job goes to the queue with that delay, although
  the message of the guard is "Schedule time must be in the future". The orchestrator
  builds the schedule time with \<^verbatim>\<open>new Date(decision.schedule_time)\<close>, so such a date
  can arrive.
\<close>

lemma addJob_schedule_invalid_date:
  assumes "executionType jd = SCHEDULE"
      and "getFunction (functionsManager m) (functionName jd) \<noteq> None"
      and "scheduleTime jd = Some InvalidDate"
      and "q_up (queue m)"
  shows "fst (addJob jobId now jd m) = Inr jobId
       \<and> map_option (opt_delay \<circ> snd)
             (map_of (q_entries (queue (snd (addJob jobId now jd m)))) jobId)
           = Some (Some None)"
  using assms
  by (auto simp add: addJob_schedule_result addScheduledJob_def schedule_delay_def queue_add_def
      Let_def update_conv' split: option.splits)

text \<open>
  Claim C4, amended. For a job spec with execution type schedule whose function is
  registered and whose schedule time, when given, is a valid date: \<^verbatim>\<open>addJob\<close> fails
  with one of the two schedule errors if and only if the schedule time is absent or its
  distance to now is at most zero (absent: "Schedule time is required for scheduled
  jobs"; at most zero: "Schedule time must be in the future"); otherwise, while the
  queue accepts the job, \<^verbatim>\<open>addJob\<close> returns the job id and the job is in the queue
  with the delay schedule time minus now.
\<close>

theorem addJob_schedule_fails_iff_not_future:
  assumes "executionType jd = SCHEDULE"
      and "getFunction (functionsManager m) (functionName jd) \<noteq> None"
      and "scheduleTime jd \<noteq> Some InvalidDate"
  shows "((fst (addJob jobId now jd m) = Inl ScheduleTimeRequired \<or>
           fst (addJob jobId now jd m) = Inl ScheduleTimeNotFuture)
          \<longleftrightarrow> (scheduleTime jd = None \<or>
                (\<exists>t. scheduleTime jd = Some (Date t) \<and> t - now \<le> 0)))
       \<and> (scheduleTime jd = None
            \<longrightarrow> fst (addJob jobId now jd m) = Inl ScheduleTimeRequired)
       \<and> (\<forall>t. scheduleTime jd = Some (Date t) \<and> t - now \<le> 0
            \<longrightarrow> fst (addJob jobId now jd m) = Inl ScheduleTimeNotFuture)
       \<and> (\<forall>t. scheduleTime jd = Some (Date t) \<and> 0 < t - now \<and> q_up (queue m)
            \<longrightarrow> fst (addJob jobId now jd m) = Inr jobId
              \<and> map_option (opt_delay \<circ> snd)
                    (map_of (q_entries (queue (snd (addJob jobId now jd m)))) jobId)
                  = Some (Some (Some (t - now))))"
proof (cases "scheduleTime jd")
  case None
  with assms show ?thesis
    by (simp add: addJob_schedule_result addScheduledJob_def Let_def)
next
  case (Some d)
  with assms(3) obtain t where d: "d = Date t" by (cases d) auto
  show ?thesis
    using assms(1,2) Some d
    by (auto simp add: addJob_schedule_result addScheduledJob_def schedule_delay_def
        queue_add_def Let_def update_conv' split: option.splits)
qed

theorem addJob_schedule_witness:
  "executionType (schedule_jobdata ''mathUtils'' (Some (Date 9000))) = SCHEDULE \<and>
   getFunction (functionsManager demo_manager)
     (functionName (schedule_jobdata ''mathUtils'' (Some (Date 9000)))) \<noteq> None \<and>
   scheduleTime (schedule_jobdata ''mathUtils'' (Some (Date 9000))) \<noteq> Some InvalidDate \<and>
   q_up (queue demo_manager) \<and>
   fst (addJob ''job-2'' 5000 (schedule_jobdata ''mathUtils'' (Some (Date 9000))) demo_manager)
     = Inr ''job-2'' \<and>
   map_option (opt_delay \<circ> snd)
     (map_of (q_entries (queue (snd
        (addJob ''job-2'' 5000 (schedule_jobdata ''mathUtils'' (Some (Date 9000))) demo_manager))))
        ''job-2'')
     = Some (Some (Some 4000)) \<and>
   fst (addJob ''job-2'' 9000 (schedule_jobdata ''mathUtils'' (Some (Date 9000))) demo_manager)
     = Inl ScheduleTimeNotFuture"
proof -
  let ?jd = "schedule_jobdata ''mathUtils'' (Some (Date 9000))"
  have a: "executionType ?jd = SCHEDULE" by (simp add: schedule_jobdata_def)
  have b: "getFunction (functionsManager demo_manager) (functionName ?jd) \<noteq> None"
    by (simp add: schedule_jobdata_def demo_manager_def demo_functions_def getFunction_def)
  have c: "scheduleTime ?jd = Some (Date 9000)" by (simp add: schedule_jobdata_def)
  have c': "scheduleTime ?jd \<noteq> Some InvalidDate" by (simp add: schedule_jobdata_def)
  have d: "q_up (queue demo_manager)" by (simp add: demo_manager_def)
  from addJob_schedule_fails_iff_not_future [OF a b c', of "''job-2''" 5000]
       addJob_schedule_fails_iff_not_future [OF a b c', of "''job-2''" 9000] c c' d a b
  show ?thesis by simp
qed

text \<open>
  The claim as stated fails when the function is not registered (the error is the
  registry's, whatever the schedule time), and a job with a future time is not enqueued
  while the queue is down.
\<close>

theorem addJob_schedule_claim_counterexample:
  "executionType (schedule_jobdata ''ghost'' None) = SCHEDULE \<and>
   scheduleTime (schedule_jobdata ''ghost'' None) = None \<and>
   fst (addJob ''job-2'' 5000 (schedule_jobdata ''ghost'' None) demo_manager)
     = Inl (FunctionNotFound ''ghost'') \<and>
   fst (addJob ''job-2'' 5000 (schedule_jobdata ''mathUtils'' (Some (Date 9000)))
          (demo_manager\<lparr>queue := \<lparr>q_entries = [], q_up = False\<rparr>\<rparr>))
     = Inl QueueUnavailable \<and>
   q_entries (queue (snd (addJob ''job-2'' 5000 (schedule_jobdata ''mathUtils'' (Some (Date 9000)))
          (demo_manager\<lparr>queue := \<lparr>q_entries = [], q_up = False\<rparr>\<rparr>)))) = []"
  by (simp add: schedule_jobdata_def demo_jobdata_def demo_manager_def demo_functions_def
      getFunction_def addJob_def addScheduledJob_def schedule_delay_def queue_add_def Let_def)

section \<open>Properties of the function registry\<close>

text \<open>
  Claim C7, amended. \<^verbatim>\<open>executeFunction\<close> races the handler of a registered function
  against a timer requested with the declared timeout, or with 30000 ms when no timeout or
  the timeout 0 is declared. If the handler has not settled when that timer fires, the
  caller resumes at that moment with the timeout error whatever the handler returns later,
  and the handler's run is still going on. The timer fires after the declared timeout
  when one between 1 and 2147483647 ms is declared, and after 30000 ms when none is.
\<close>

theorem executeFunction_times_out:
  assumes "getFunction fm n = Some func"
      and "d = or_default (timeout (func_definition func)) 30000"
      and "handler func params = NeverSettles \<or>
           (\<exists>t r. handler func params = Settles t r \<and> timer_fires_at d < t)"
  shows "executeFunction fm n params =
           \<lparr>outcome = Inl FunctionTimeout, resumed_at = timer_fires_at d,
            still_running = Some (handler func params)\<rparr>
         \<and> (timeout (func_definition func) = None \<longrightarrow> timer_fires_at d = 30000)
         \<and> (\<forall>T. timeout (func_definition func) = Some T \<and> 1 \<le> T \<and> T \<le> 2147483647
                \<longrightarrow> timer_fires_at d = nat T)"
proof -
  have race: "promise_race (handler func params) d =
           \<lparr>outcome = Inl FunctionTimeout, resumed_at = timer_fires_at d,
            still_running = Some (handler func params)\<rparr>"
    using assms(3) by (auto simp add: promise_race_def)
  have "executeFunction fm n params = promise_race (handler func params) d"
    using assms(1,2) by (simp add: executeFunction_def getFunction_def Let_def)
  with race have main: "executeFunction fm n params =
           \<lparr>outcome = Inl FunctionTimeout, resumed_at = timer_fires_at d,
            still_running = Some (handler func params)\<rparr>" by simp
  have none: "timeout (func_definition func) = None \<longrightarrow> timer_fires_at d = 30000"
    using assms(2) by (simp add: or_default_def timer_fires_at_def)
  have some: "\<forall>T. timeout (func_definition func) = Some T \<and> 1 \<le> T \<and> T \<le> 2147483647
                \<longrightarrow> timer_fires_at d = nat T"
    using assms(2) by (auto simp add: or_default_def timer_fires_at_def)
  from main none some show ?thesis by blast
qed

text \<open>A handler that takes 8000 ms under a declared timeout of 5000 ms.\<close>

theorem executeFunction_times_out_witness:
  "getFunction (sleeper_registry (Some 5000) 8000) ''sleeper'' = Some (sleeper (Some 5000) 8000) \<and>
   timeout (func_definition (sleeper (Some 5000) 8000)) = Some 5000 \<and>
   handler (sleeper (Some 5000) 8000) (JObj []) = Settles 8000 (Inr (JStr ''done'')) \<and>
   executeFunction (sleeper_registry (Some 5000) 8000) ''sleeper'' (JObj []) =
     \<lparr>outcome = Inl FunctionTimeout, resumed_at = 5000,
      still_running = Some (Settles 8000 (Inr (JStr ''done'')))\<rparr>"
proof -
  let ?f = "sleeper (Some 5000) 8000"
  have a: "getFunction (sleeper_registry (Some 5000) 8000) ''sleeper'' = Some ?f"
    by (simp add: getFunction_def sleeper_registry_def)
  have b: "(5000::int) = or_default (timeout (func_definition ?f)) 30000"
    by (simp add: sleeper_def or_default_def)
  have h: "handler ?f (JObj []) = Settles 8000 (Inr (JStr ''done''))"
    by (simp add: sleeper_def)
  have f: "timer_fires_at 5000 = 5000" by (simp add: timer_fires_at_def)
  have c: "handler ?f (JObj []) = NeverSettles \<or>
           (\<exists>t r. handler ?f (JObj []) = Settles t r \<and> timer_fires_at 5000 < t)"
    using h f by simp
  have t: "timeout (func_definition ?f) = Some 5000" by (simp add: sleeper_def)
  from executeFunction_times_out [OF a b c] a t h f show ?thesis by simp
qed

text \<open>
  The claim as stated fails for a declared timeout of 0: the timer is not set to 0 ms
  but to 30000 ms, and a handler that settles after 10 ms gives its result to the caller.
\<close>

theorem executeFunction_zero_timeout_counterexample:
  "timeout (func_definition (sleeper (Some 0) 10)) = Some 0 \<and>
   handler (sleeper (Some 0) 10) (JObj []) = Settles 10 (Inr (JStr ''done'')) \<and>
   executeFunction (sleeper_registry (Some 0) 10) ''sleeper'' (JObj []) =
     \<lparr>outcome = Inr (JStr ''done''), resumed_at = 10, still_running = None\<rparr>"
  by (simp add: sleeper_def sleeper_registry_def executeFunction_def promise_race_def
      or_default_def timer_fires_at_def)

text \<open>A handler that settles before the timer fires decides the outcome.\<close>

lemma executeFunction_in_time:
  assumes "getFunction fm n = Some func"
      and "handler func params = Settles t r"
      and "t \<le> timer_fires_at (or_default (timeout (func_definition func)) 30000)"
  shows "executeFunction fm n params = \<lparr>outcome = r, resumed_at = t, still_running = None\<rparr>"
  using assms by (simp add: executeFunction_def getFunction_def promise_race_def Let_def)

section \<open>Properties of mathUtils\<close>

lemma floor_numeral_div:
  "\<lfloor>(numeral a :: rat) / numeral b\<rfloor> = numeral a div numeral b"
  using floor_divide_of_int_eq [of "numeral a" "numeral b", where ?'a = rat] by simp

text \<open>
  Claim C8. On every platform, the handler of \<^verbatim>\<open>mathUtils\<close> called with the operation
  "average" and the numbers 10, 20, 30, 45, 55 returns the object whose \<^verbatim>\<open>result\<close> is 32
  (with the operation, the input and the count 5), and called with the empty array of
  numbers it fails with the error "Cannot calculate average of empty array".
\<close>

theorem mathUtils_average:
  "mathUtils_handler plat
     (JObj [(''numbers'', JArr [JNum 10, JNum 20, JNum 30, JNum 45, JNum 55]),
            (''operation'', JStr ''average'')]) = Inr average_result
   \<and> get_field average_result ''result'' = Some (JNum 32)
   \<and> mathUtils_handler plat (JObj [(''numbers'', JArr []), (''operation'', JStr ''average'')])
       = Inl (HandlerError ''Cannot calculate average of empty array'')"
  by (simp add: mathUtils_handler_def mathUtils_switch_def toLowerCase_def js_Number_def
      math_result_def Math_round_def floor_numeral_div average_result_def)

text \<open>The same through the registry: the handler settles at once, inside its timeout.\<close>

lemma executeFunction_mathUtils_average:
  "outcome (executeFunction demo_functions ''mathUtils''
     (JObj [(''numbers'', JArr [JNum 10, JNum 20, JNum 30, JNum 45, JNum 55]),
            (''operation'', JStr ''average'')])) = Inr average_result"
  by (simp add: executeFunction_def demo_functions_def mathUtilsFunction_def
      mathUtils_definition_def promise_race_def or_default_def timer_fires_at_def
      mathUtils_handler_def mathUtils_switch_def toLowerCase_def js_Number_def
      math_result_def Math_round_def floor_numeral_div average_result_def)

section \<open>Properties of the LLM gateway\<close>

text \<open>What the pass over the entries deletes: every key that has an idle entry.\<close>

lemma cleanup_loop_filter:
  "cleanup_loop es d m =
     filter (\<lambda>(k, i). \<not> (\<exists>j. (k, j) \<in> set es \<and> idle_since d j)) m"
proof (induction es arbitrary: m)
  case Nil
  then show ?case by simp
next
  case (Cons e es)
  obtain a inst where e: "e = (a, inst)" by (cases e)
  show ?case
  proof (cases "idle_since d inst")
    case True
    then show ?thesis
      using Cons.IH [of "AList.delete a m"] e
      by (auto simp: AList.delete_eq intro!: filter_cong)
  next
    case False
    then show ?thesis
      using Cons.IH [of m] e
      by (auto intro!: filter_cong)
  qed
qed

lemma cleanup_filter:
  assumes "distinct (map fst (instances mgr))"
  shows "instances (cleanup now mgr) =
         filter (\<lambda>(k, i). \<not> idle_since (now - 24 * 60 * 60 * 1000) i) (instances mgr)"
proof -
  let ?m = "instances mgr" and ?d = "now - 24 * 60 * 60 * 1000"
  have same: "(\<exists>j. (k, j) \<in> set ?m \<and> idle_since ?d j) = idle_since ?d i"
    if "(k, i) \<in> set ?m" for k i
  proof -
    have "j = i" if "(k, j) \<in> set ?m" for j
      using assms that \<open>(k, i) \<in> set ?m\<close> by (rule eq_key_imp_eq_value)
    then show ?thesis using that by blast
  qed
  have "instances (cleanup now mgr) = cleanup_loop ?m ?d ?m"
    by (simp add: cleanup_def)
  also have "\<dots> = filter (\<lambda>(k, i). \<not> (\<exists>j. (k, j) \<in> set ?m \<and> idle_since ?d j)) ?m"
    by (rule cleanup_loop_filter)
  also have "\<dots> = filter (\<lambda>(k, i). \<not> idle_since ?d i) ?m"
  proof (rule filter_cong [OF refl])
    fix x assume x: "x \<in> set ?m"
    obtain k i where ki: "x = (k, i)" by (cases x)
    from same [of k i] x ki
    show "(case x of (k, i) \<Rightarrow> \<not> (\<exists>j. (k, j) \<in> set ?m \<and> idle_since ?d j))
             = (case x of (k, i) \<Rightarrow> \<not> idle_since ?d i)"
      by auto
  qed
  finally show ?thesis .
qed

text \<open>The keys of the instance map stay distinct, as the keys of a \<^verbatim>\<open>Map\<close> are.\<close>

lemma createInstance_distinct:
  "distinct (map fst (instances mgr)) \<Longrightarrow> createInstance k now cfg mgr = Inr mgr'
   \<Longrightarrow> distinct (map fst (instances mgr'))"
  by (auto simp add: createInstance_def distinct_update split: LLMProvider.splits)

lemma generateResponse_distinct:
  "distinct (map fst (instances mgr))
   \<Longrightarrow> distinct (map fst (instances (snd (generateResponse k now reply mgr))))"
  by (auto simp add: generateResponse_def Let_def distinct_update
      split: option.splits LLMProvider.splits)

lemma cleanup_distinct:
  "distinct (map fst (instances mgr)) \<Longrightarrow> distinct (map fst (instances (cleanup now mgr)))"
  by (simp add: cleanup_filter distinct_map_filter)

text \<open>
  Claim C9. After \<^verbatim>\<open>cleanup()\<close> at time \<open>now\<close> the instance map holds exactly the
  entries it held before whose last-used time is not more than 24 hours before \<open>now\<close>:
  an entry last used earlier than \<open>now - 24h\<close> is gone, every other entry (used within the
  last 24 hours, or never used) is retained as it was, and nothing is added.
\<close>

theorem cleanup_evicts_exactly_the_idle:
  assumes "distinct (map fst (instances mgr))"
  shows "(k, i) \<in> set (instances (cleanup now mgr)) \<longleftrightarrow>
         (k, i) \<in> set (instances mgr) \<and>
         \<not> (\<exists>t. lastUsed i = Some t \<and> t < now - 24 * 60 * 60 * 1000)"
  using assms by (auto simp: cleanup_filter idle_since_def split: option.splits)

theorem cleanup_evicts_exactly_the_idle_witness:
  "distinct (map fst (instances demo_llm)) \<and>
   (''stale'', demo_instance ''stale'' (Some 1000)) \<in> set (instances demo_llm) \<and>
   (''stale'', demo_instance ''stale'' (Some 1000))
      \<notin> set (instances (cleanup 100000000 demo_llm)) \<and>
   (''edge'', demo_instance ''edge'' (Some 13600000))
      \<in> set (instances (cleanup 100000000 demo_llm))"
proof -
  have d: "distinct (map fst (instances demo_llm))" by (simp add: demo_llm_def)
  have a: "(''stale'', demo_instance ''stale'' (Some 1000)) \<in> set (instances demo_llm)"
    by (simp add: demo_llm_def)
  have b: "(''edge'', demo_instance ''edge'' (Some 13600000)) \<in> set (instances demo_llm)"
    by (simp add: demo_llm_def)
  from cleanup_evicts_exactly_the_idle
         [OF d, of "''stale''" "demo_instance ''stale'' (Some 1000)" 100000000]
       cleanup_evicts_exactly_the_idle
         [OF d, of "''edge''" "demo_instance ''edge'' (Some 13600000)" 100000000]
       a b d
  show ?thesis by (simp add: demo_instance_def)
qed

lemma cleanup_demo:
  "map fst (instances (cleanup 100000000 demo_llm)) = [''fresh'', ''edge'', ''unused'']"
  by (simp add: demo_llm_def cleanup_def demo_instance_def idle_since_def)

section \<open>Properties of the orchestrator\<close>

text \<open>
  The match of the pattern, characterised: it is the part of the text from the first
  opening brace to the last closing brace, and there is none exactly when no closing
  brace comes after an opening one.
\<close>

lemma jsonMatch_of_parts:
  assumes "CHR ''{'' \<notin> set pre" and "CHR ''}'' \<notin> set post"
  shows "jsonMatch (pre @ CHR ''{'' # mid @ CHR ''}'' # post) = Some (CHR ''{'' # mid @ [CHR ''}''])"
proof -
  have a: "dropWhile (\<lambda>c. c \<noteq> CHR ''{'') (pre @ CHR ''{'' # mid @ CHR ''}'' # post)
           = CHR ''{'' # mid @ CHR ''}'' # post"
    using assms(1) by (auto simp add: dropWhile_append3)
  have b: "rev (CHR ''{'' # mid @ CHR ''}'' # post) = rev post @ CHR ''}'' # rev (CHR ''{'' # mid)"
    by simp
  have c: "dropWhile (\<lambda>c. c \<noteq> CHR ''}'') (rev post @ CHR ''}'' # rev (CHR ''{'' # mid))
           = CHR ''}'' # rev (CHR ''{'' # mid)"
    using assms(2) by (auto simp add: dropWhile_append3)
  show ?thesis
    unfolding jsonMatch_def Let_def a b c by simp
qed

lemma jsonMatch_parts:
  assumes "jsonMatch s = Some m"
  shows "\<exists>pre mid post. s = pre @ CHR ''{'' # mid @ CHR ''}'' # post
           \<and> CHR ''{'' \<notin> set pre \<and> CHR ''}'' \<notin> set post \<and> m = CHR ''{'' # mid @ [CHR ''}'']"
proof -
  define pre where "pre = takeWhile (\<lambda>c. c \<noteq> CHR ''{'') s"
  define fb where "fb = dropWhile (\<lambda>c. c \<noteq> CHR ''{'') s"
  define rpost where "rpost = takeWhile (\<lambda>c. c \<noteq> CHR ''}'') (rev fb)"
  define rm where "rm = dropWhile (\<lambda>c. c \<noteq> CHR ''}'') (rev fb)"
  have s: "s = pre @ fb" by (simp add: pre_def fb_def)
  have pre: "CHR ''{'' \<notin> set pre"
    unfolding pre_def by (auto dest: set_takeWhileD)
  have post: "CHR ''}'' \<notin> set (rev rpost)"
    unfolding rpost_def by (auto dest: set_takeWhileD)
  have m: "m = rev rm" and ne: "rm \<noteq> []"
    using assms by (auto simp add: jsonMatch_def Let_def rm_def fb_def split: if_splits)
  have "rev fb = rpost @ rm" by (simp add: rpost_def rm_def)
  then have "rev (rev fb) = rev (rpost @ rm)" by simp
  then have fb: "fb = rev rm @ rev rpost" by simp
  from ne have hd_rm: "hd rm = CHR ''}''"
    unfolding rm_def using hd_dropWhile [of "\<lambda>c. c \<noteq> CHR ''}''" "rev fb"] by simp
  from ne fb have "fb \<noteq> []" by simp
  then have hd_fb: "hd fb = CHR ''{''"
    unfolding fb_def using hd_dropWhile [of "\<lambda>c. c \<noteq> CHR ''{''" s] by simp
  from ne obtain t where rm: "rm = CHR ''}'' # t" using hd_rm by (cases rm) auto
  have "hd (rev rm) = CHR ''{''" using hd_fb fb ne by simp
  then have "rev t \<noteq> []" using rm by auto
  then obtain mid where t: "rev t = CHR ''{'' # mid"
    using \<open>hd (rev rm) = CHR ''{''\<close> rm by (cases "rev t") auto
  have "rev rm = CHR ''{'' # mid @ [CHR ''}'']" using rm t by simp
  with s fb m pre post show ?thesis
    by (intro exI [of _ pre] exI [of _ mid] exI [of _ "rev rpost"]) simp
qed

lemma jsonMatch_None_iff:
  "jsonMatch s = None \<longleftrightarrow> (\<nexists>pre mid post. s = pre @ CHR ''{'' # mid @ CHR ''}'' # post)"
proof
  assume none: "jsonMatch s = None"
  show "\<nexists>pre mid post. s = pre @ CHR ''{'' # mid @ CHR ''}'' # post"
  proof
    assume "\<exists>pre mid post. s = pre @ CHR ''{'' # mid @ CHR ''}'' # post"
    then obtain pre mid post where s: "s = pre @ CHR ''{'' # mid @ CHR ''}'' # post" by blast
    define p1 where "p1 = takeWhile (\<lambda>c. c \<noteq> CHR ''{'') pre"
    define fb where "fb = dropWhile (\<lambda>c. c \<noteq> CHR ''{'') s"
    have "CHR ''}'' \<in> set fb"
    proof (cases "CHR ''{'' \<in> set pre")
      case True
      then have "dropWhile (\<lambda>c. c \<noteq> CHR ''{'') s
                 = dropWhile (\<lambda>c. c \<noteq> CHR ''{'') pre @ CHR ''{'' # mid @ CHR ''}'' # post"
        unfolding s by (simp add: dropWhile_append1)
      then show ?thesis by (simp add: fb_def)
    next
      case False
      then have "dropWhile (\<lambda>c. c \<noteq> CHR ''{'') s = CHR ''{'' # mid @ CHR ''}'' # post"
        unfolding s by (auto simp add: dropWhile_append3)
      then show ?thesis by (simp add: fb_def)
    qed
    then have "dropWhile (\<lambda>c. c \<noteq> CHR ''}'') (rev fb) \<noteq> []"
      by (simp add: dropWhile_eq_Nil_conv)
    with none show False by (auto simp add: jsonMatch_def Let_def fb_def split: if_splits)
  qed
next
  assume "\<nexists>pre mid post. s = pre @ CHR ''{'' # mid @ CHR ''}'' # post"
  then show "jsonMatch s = None"
    using jsonMatch_parts [of s] by (cases "jsonMatch s") auto
qed

text \<open>
  Claim C5, amended. On every platform and for every reply text,
  \<^verbatim>\<open>parseLLMDecision\<close> returns a decision (it has no error result): the fallback decision,
  with action "direct_response" and the clarification message, if the text has no match
  of the pattern, or the match does not parse, or the action of the parsed value is
  absent or falsy (null, false, 0, the empty string); and the parsed value otherwise.
\<close>

theorem parseLLMDecision_result:
  "parseLLMDecision plat reply =
     (case jsonMatch reply of
        None \<Rightarrow> fallbackDecision
      | Some txt \<Rightarrow>
          (case JSON_parse plat txt of
             None \<Rightarrow> fallbackDecision
           | Some decision \<Rightarrow>
               (case get_field decision ''action'' of
                  None \<Rightarrow> fallbackDecision
                | Some a \<Rightarrow> if truthy a then decision else fallbackDecision)))
   \<and> get_field fallbackDecision ''action'' = Some (JStr ''direct_response'')"
  by (simp add: parseLLMDecision_def parseLLMDecision_try_def fallbackDecision_def
      split: option.splits)

theorem parseLLMDecision_witness:
  "parseLLMDecision demo_platform average_decision_text = average_decision
   \<and> parseLLMDecision demo_platform ''I cannot decide.'' = fallbackDecision"
proof -
  have a: "jsonMatch average_decision_text = Some (drop 21 average_decision_text)"
    by code_simp
  have b: "JSON_parse demo_platform (drop 21 average_decision_text) = Some average_decision"
    by code_simp
  have c: "get_field average_decision ''action'' = Some (JStr ''execute_function'')"
    by (simp add: average_decision_def)
  have d: "jsonMatch ''I cannot decide.'' = None" by code_simp
  from parseLLMDecision_result [of demo_platform average_decision_text]
       parseLLMDecision_result [of demo_platform "''I cannot decide.''"]
       a b c d
  show ?thesis by simp
qed

text \<open>
  The claim as stated fails on a reply whose object has the action field, with the empty
  string in it: the object parses and does not lack the field, yet the result is the
  fallback decision and not the parsed object.
\<close>

theorem parseLLMDecision_empty_action_counterexample:
  "jsonMatch empty_action_text = Some empty_action_text \<and>
   JSON_parse demo_platform empty_action_text = Some empty_action_decision \<and>
   get_field empty_action_decision ''action'' = Some (JStr []) \<and>
   parseLLMDecision demo_platform empty_action_text = fallbackDecision \<and>
   fallbackDecision \<noteq> empty_action_decision"
  by code_simp

text \<open>A message that was registered is in \<^verbatim>\<open>activeRequests\<close>.\<close>

lemma registered_is_active:
  "map_of (activeRequests (register_request env message am)) (msg_id message) \<noteq> None"
  by (simp add: register_request_def update_conv')

text \<open>
  Claim C6. While a message id is in \<^verbatim>\<open>activeRequests\<close>, a delivery with that id is
  dropped: the handler returns at the duplicate guard and the state is what it was (no
  call to the model, no job, nothing published, the entry of the first delivery kept).
  In particular this holds in the state the registration of a first delivery produces,
  for every second message with the same id.
\<close>

theorem duplicate_delivery_is_dropped:
  "(map_of (activeRequests am) (msg_id message) \<noteq> None
      \<longrightarrow> handleIncomingMessage env message am = (DroppedDuplicate, am))
   \<and> (msg_id second = msg_id first
      \<longrightarrow> handleIncomingMessage env second (register_request env1 first am)
          = (DroppedDuplicate, register_request env1 first am))"
proof -
  have dup: "handleIncomingMessage e m a = (DroppedDuplicate, a)"
    if "map_of (activeRequests a) (msg_id m) \<noteq> None" for e m a
    using that by (simp add: handleIncomingMessage_def admission_of_def)
  show ?thesis
  proof (intro conjI impI)
    assume "map_of (activeRequests am) (msg_id message) \<noteq> None"
    then show "handleIncomingMessage env message am = (DroppedDuplicate, am)" by (rule dup)
  next
    assume same: "msg_id second = msg_id first"
    have "map_of (activeRequests (register_request env1 first am)) (msg_id second) \<noteq> None"
      using registered_is_active [of env1 first am] same by simp
    then show "handleIncomingMessage env second (register_request env1 first am)
          = (DroppedDuplicate, register_request env1 first am)" by (rule dup)
  qed
qed

theorem duplicate_delivery_witness:
  "admission_of demo_message demo_agent = Admitted \<and>
   msg_id (demo_message\<lparr>msg_content := ''again''\<rparr>) = msg_id demo_message \<and>
   fst (handleIncomingMessage (demo_env ''x'') (demo_message\<lparr>msg_content := ''again''\<rparr>)
          (register_request (demo_env ''y'') demo_message demo_agent)) = DroppedDuplicate \<and>
   published (messagingManager (snd
     (handleIncomingMessage (demo_env ''x'') (demo_message\<lparr>msg_content := ''again''\<rparr>)
          (register_request (demo_env ''y'') demo_message demo_agent)))) = []"
proof -
  have a: "admission_of demo_message demo_agent = Admitted" by code_simp
  have b: "msg_id (demo_message\<lparr>msg_content := ''again''\<rparr>) = msg_id demo_message" by simp
  have c: "published (messagingManager (register_request (demo_env ''y'') demo_message demo_agent))
            = []"
    by (simp add: register_request_def demo_agent_def)
  from duplicate_delivery_is_dropped
         [of demo_agent demo_message "demo_env ''x''" "demo_message\<lparr>msg_content := ''again''\<rparr>"
             demo_message "demo_env ''y''"] a b c
  show ?thesis by simp
qed

text \<open>
  Orchestration touches neither the gateway nor \<^verbatim>\<open>activeRequests\<close>: it works on
  the job engine and the model instances only.
\<close>

lemma generateContextualResponse_frame:
  "generateContextualResponse env f s am = (t, am') \<Longrightarrow>
   messagingManager am' = messagingManager am \<and> activeRequests am' = activeRequests am"
  by (auto simp add: generateContextualResponse_def split: prod.splits sum.splits)

lemma executeFunctionDecision_try_frame:
  "executeFunctionDecision_try env d am = (r, js, am') \<Longrightarrow>
   messagingManager am' = messagingManager am \<and> activeRequests am' = activeRequests am"
  unfolding executeFunctionDecision_try_def Let_def
  by (auto simp del: waitForJobCompletion.simps dest!: generateContextualResponse_frame
      split: prod.splits sum.splits option.splits if_splits)

lemma executeFunctionDecision_frame:
  "executeFunctionDecision env d am = (t, js, am') \<Longrightarrow>
   messagingManager am' = messagingManager am \<and> activeRequests am' = activeRequests am"
  unfolding executeFunctionDecision_def
  by (auto dest!: executeFunctionDecision_try_frame split: prod.splits sum.splits)

lemma cancelJobDecision_frame:
  "cancelJobDecision env d am = (t, am') \<Longrightarrow>
   messagingManager am' = messagingManager am \<and> activeRequests am' = activeRequests am"
  unfolding cancelJobDecision_def Let_def
  by (auto split: prod.splits option.splits if_splits)

lemma executeDecision_frame:
  "executeDecision env d am = (t, js, am') \<Longrightarrow>
   messagingManager am' = messagingManager am \<and> activeRequests am' = activeRequests am"
  unfolding executeDecision_def Let_def
  by (auto dest!: executeFunctionDecision_frame cancelJobDecision_frame
      split: prod.splits if_splits)

lemma orchestrationMaster_frame:
  "orchestrationMaster env request am = (resp, am') \<Longrightarrow>
   messagingManager am' = messagingManager am \<and> activeRequests am' = activeRequests am"
  unfolding orchestrationMaster_def orchestrationMaster_try_def Let_def
  by (auto dest!: executeDecision_frame split: prod.splits sum.splits if_splits)

text \<open>
  What handling an admitted message comes to: one call of \<^verbatim>\<open>sendMessage\<close> with the
  response of the orchestration. The message is in \<^verbatim>\<open>activeRequests\<close> when the
  \<^verbatim>\<open>catch\<close> runs, so the apology of the \<^verbatim>\<open>catch\<close> is never sent; the entry is
  released on every path. The request is answered exactly when the gateway is usable and
  the response passes the schema.
\<close>

lemma process_request_registered:
  assumes reg: "map_of (activeRequests am) (msg_id message) \<noteq> None"
      and orch: "orchestrationMaster env \<lparr>req_message = message, req_jobId = requestId env\<rparr> am
                   = (resp, am1)"
  shows "process_request env message am =
     (case sendMessage (response resp) (messagingManager am) of
        (r, mm1) \<Rightarrow>
          ((case r of Inr u \<Rightarrow> Processed | Inl e \<Rightarrow> ErrorCaught e),
           am1\<lparr>messagingManager := mm1,
               activeRequests := AList.delete (msg_id message) (activeRequests am)\<rparr>))"
proof -
  from orchestrationMaster_frame [OF orch]
  have mm: "messagingManager am1 = messagingManager am"
   and ar: "activeRequests am1 = activeRequests am" by simp_all
  from reg obtain y where y: "map_of (activeRequests am) (msg_id message) = Some y" by auto
  show ?thesis
    by (simp add: process_request_def orch mm ar y split: prod.split sum.split)
qed

lemma handled_request:
  assumes adm: "admission_of message am = Admitted"
      and orch: "orchestrationMaster env \<lparr>req_message = message, req_jobId = requestId env\<rparr>
                   (register_request env message am) = (resp, am1)"
  shows "handleIncomingMessage env message am =
     (case sendMessage (response resp) (messagingManager am) of
        (r, mm1) \<Rightarrow>
          ((case r of Inr u \<Rightarrow> Processed | Inl e \<Rightarrow> ErrorCaught e),
           am1\<lparr>messagingManager := mm1, activeRequests := activeRequests am\<rparr>))"
proof -
  have notin: "map_of (activeRequests am) (msg_id message) = None"
    using adm by (simp add: admission_of_def split: if_splits)
  have del: "AList.delete (msg_id message) (activeRequests (register_request env message am))
             = activeRequests am"
    using notin
    by (simp add: register_request_def AList.delete_update_same delete_id map_of_eq_None_iff)
  have mm: "messagingManager (register_request env message am) = messagingManager am"
    by (simp add: register_request_def)
  from process_request_registered [OF registered_is_active orch]
  show ?thesis using adm by (simp add: handleIncomingMessage_def del mm)
qed

lemma published_after_handling:
  assumes adm: "admission_of message am = Admitted"
      and orch: "orchestrationMaster env \<lparr>req_message = message, req_jobId = requestId env\<rparr>
                   (register_request env message am) = (resp, am1)"
  shows "published (messagingManager (snd (handleIncomingMessage env message am))) =
     (if (isConnected (messagingManager am) \<or> \<not> connectionPromise_rejects (messagingManager am))
         \<and> channel (messagingManager am) \<and> broker_confirms (messagingManager am)
         \<and> validateOutgoingMessage (response resp) \<noteq> None
      then published (messagingManager am) @ [response resp]
      else published (messagingManager am))"
  by (auto simp add: handled_request [OF adm orch] sendMessage_def waitForConnection_def
      validateOutgoingMessage_def split: prod.split sum.split option.split)

lemma released_after_handling:
  assumes "admission_of message am = Admitted"
  shows "activeRequests (snd (handleIncomingMessage env message am)) = activeRequests am"
proof -
  obtain resp am1 where
    "orchestrationMaster env \<lparr>req_message = message, req_jobId = requestId env\<rparr>
       (register_request env message am) = (resp, am1)"
    by (cases "orchestrationMaster env \<lparr>req_message = message, req_jobId = requestId env\<rparr>
       (register_request env message am)")
  from handled_request [OF assms this] show ?thesis by (simp split: prod.split)
qed

lemma response_is_marked:
  assumes "orchestrationMaster env request am = (resp, am1)"
  shows "map_of (out_metadata (response resp)) ''isResponse'' = Some (JBool True)
       \<and> map_of (out_metadata (response resp)) ''originalMessageId''
           = Some (JStr (msg_id (req_message request)))"
  using assms
  unfolding orchestrationMaster_def orchestrationMaster_try_def Let_def createOutgoingMessage_def
  by (auto split: prod.splits sum.splits if_splits option.splits)

text \<open>
  The averaging scenario end to end: the job completes with the result 32, the model
  phrases the summary, and the summary is published as the response.
\<close>

lemma averaging_scenario_is_answered:
  "fst (handleIncomingMessage (demo_env ''The average is 32.'') demo_message demo_agent)
     = Processed \<and>
   map out_content (published (messagingManager (snd
     (handleIncomingMessage (demo_env ''The average is 32.'') demo_message demo_agent))))
     = [JStr ''The average is 32.'']"
  by code_simp

text \<open>
  Claim C1 says that a request that passed the guards is left unanswered only when the
  outbound transport is unusable. In the same scenario with an empty summary from the
  model, the response has the empty string as content, \<^verbatim>\<open>sendMessage\<close> rejects it at
  the schema check, the \<^verbatim>\<open>catch\<close> finds the message still in \<^verbatim>\<open>activeRequests\<close> and
  sends no apology: nothing is published, though the gateway is connected, has its
  channel and the broker takes publishes.
\<close>

theorem request_unanswered_with_usable_transport:
  "admission_of demo_message demo_agent = Admitted \<and>
   fst (handleIncomingMessage (demo_env []) demo_message demo_agent)
     = ErrorCaught InvalidMessageFormat \<and>
   published (messagingManager (snd (handleIncomingMessage (demo_env []) demo_message demo_agent)))
     = [] \<and>
   isConnected (messagingManager (snd (handleIncomingMessage (demo_env []) demo_message demo_agent))) \<and>
   channel (messagingManager (snd (handleIncomingMessage (demo_env []) demo_message demo_agent))) \<and>
   broker_confirms (messagingManager (snd (handleIncomingMessage (demo_env []) demo_message demo_agent)))"
  by code_simp

end
